theory Spec2Isabelle
  imports Main "HOL-Library.AList" "HOL-Library.Word"
begin

section \<open>Strings\<close>

text \<open>
  A JavaScript string is a sequence of UTF-16 code units, and \<^verbatim>\<open>s.length\<close> is
  their number. The literals of the sources are written \<open>js ''...''\<close>: each ASCII
  character is the code unit of the same value.
\<close>

type_synonym code_unit = "16 word"

type_synonym js_string = "code_unit list"

definition js :: "string \<Rightarrow> js_string" where
  "js s = map of_char s"

section \<open>Updates and update kinds\<close>

text \<open>
  The enumeration \<^verbatim>\<open>UpdateType\<close> of the dispatcher. Its string values
  (\<^verbatim>\<open>'message'\<close>, \<^verbatim>\<open>'photo'\<close>, ...) are all non-empty, so a kind is
  truthy exactly when it is not \<^verbatim>\<open>null\<close>; \<open>None\<close> stands for \<^verbatim>\<open>null\<close>.
\<close>

datatype UpdateType = Message | Photo | Inline | Document | Callback | BusinessMessage

text \<open>
  Modelled from the spec: the type \<^verbatim>\<open>TelegramUpdate\<close> of a raw update, whose
  declaration is not among the sources; the records have the optional sub-objects of the
  specification's data model, with the fields the sources read. An optional field that is absent
  (\<^verbatim>\<open>undefined\<close> or \<^verbatim>\<open>null\<close>) is \<open>None\<close>. The fields the
  platform's schema requires (\<^verbatim>\<open>chat.id\<close>, \<^verbatim>\<open>message_id\<close>, the
  \<^verbatim>\<open>id\<close> and \<^verbatim>\<open>query\<close> of an inline query, the \<^verbatim>\<open>id\<close> of a
  callback query) are always there; identifiers are kept as the strings their
  \<^verbatim>\<open>toString()\<close> gives. The field \<^verbatim>\<open>text\<close> is called \<open>msg_text\<close>,
  \<^verbatim>\<open>chat.id\<close> is \<open>chat_id\<close>, and \<^verbatim>\<open>id\<close> is
  \<open>inline_query_id\<close> or \<open>callback_query_id\<close>.
\<close>

record TelegramMessage =
  msg_text :: "js_string option"
  photo :: "js_string list option"
  document :: "js_string option"
  chat_id :: js_string
  message_id :: js_string
  business_connection_id :: "js_string option"

record InlineQuery =
  inline_query_id :: js_string
  query :: js_string

record CallbackQuery =
  callback_query_id :: js_string

record TelegramUpdate =
  message :: "TelegramMessage option"
  business_message :: "TelegramMessage option"
  inline_query :: "InlineQuery option"
  callback_query :: "CallbackQuery option"

text \<open>Truthiness of an optional string: present and not empty.\<close>

definition truthy :: "js_string option \<Rightarrow> bool" where
  "truthy s = (case s of None \<Rightarrow> False | Some t \<Rightarrow> t \<noteq> [])"

text \<open>
  The ordered table \<^verbatim>\<open>updateTypeMap\<close>. An optional chain
  \<^verbatim>\<open>update.message?.photo\<close> is \<open>Option.bind (message u) photo\<close>, and
  \<open>map_option\<close> when the field is a required one; an array or an object is truthy
  whenever it is present.
\<close>

definition updateTypeMap :: "(UpdateType \<times> (TelegramUpdate \<Rightarrow> bool)) list" where
  "updateTypeMap =
    [(Photo, \<lambda>u. Option.bind (message u) photo \<noteq> None),
     (Document, \<lambda>u. Option.bind (message u) document \<noteq> None),
     (Message, \<lambda>u. truthy (Option.bind (message u) msg_text)),
     (Inline, \<lambda>u. truthy (map_option query (inline_query u))),
     (Callback, \<lambda>u. truthy (map_option callback_query_id (callback_query u))),
     (BusinessMessage, \<lambda>u. business_message u \<noteq> None)]"

text \<open>
  The classification loop of the context's constructor,
  \<^verbatim>\<open>for (const { type, predicate } of updateTypeMap) { if (predicate(update)) { this.update_type = type; break; } }\<close>,
  as the list of the values it writes to \<^verbatim>\<open>this.update_type\<close>: the
  \<^verbatim>\<open>break\<close> ends the loop at the first write.
\<close>

fun classification_writes ::
  "(UpdateType \<times> (TelegramUpdate \<Rightarrow> bool)) list \<Rightarrow> TelegramUpdate \<Rightarrow> UpdateType list" where
  "classification_writes [] u = []"
| "classification_writes ((ty, predicate) # rest) u =
     (if predicate u then [ty] else classification_writes rest u)"

text \<open>The field after the loop: initially \<^verbatim>\<open>null\<close>, then the last value written.\<close>

definition classify :: "TelegramUpdate \<Rightarrow> UpdateType option" where
  "classify u = (case classification_writes updateTypeMap u of [] \<Rightarrow> None | ws \<Rightarrow> Some (last ws))"

section \<open>Command extraction\<close>

text \<open>\<^verbatim>\<open>s.startsWith('/')\<close>.\<close>

definition startsWith_slash :: "js_string \<Rightarrow> bool" where
  "startsWith_slash s = (case s of [] \<Rightarrow> False | c # _ \<Rightarrow> c = (of_char CHR ''/''))"

text \<open>
  \<^verbatim>\<open>s.split(sep)\<close> for a separator of one code unit: every occurrence of
  the separator ends a part, and the empty string gives one empty part.
\<close>

fun split :: "code_unit \<Rightarrow> js_string \<Rightarrow> js_string list" where
  "split sep [] = [[]]"
| "split sep (c # cs) =
     (if c = sep then [] # split sep cs
      else (case split sep cs of [] \<Rightarrow> [[c]] | p # ps \<Rightarrow> (c # p) # ps))"

text \<open>\<^verbatim>\<open>a || b\<close> on optional strings: \<open>a\<close> when it is truthy, \<open>b\<close> otherwise.\<close>

definition js_or :: "js_string option \<Rightarrow> js_string option \<Rightarrow> js_string option" where
  "js_or a b = (if truthy a then a else b)"

text \<open>
  \<^verbatim>\<open>this.update.message?.text || this.update.business_message?.text || ''\<close>.
\<close>

definition messageText :: "TelegramUpdate \<Rightarrow> js_string" where
  "messageText u =
    (case js_or (js_or (Option.bind (message u) msg_text)
                       (Option.bind (business_message u) msg_text)) (Some [])
     of None \<Rightarrow> [] | Some t \<Rightarrow> t)"

text \<open>
  The command of the constructor: only for the kinds Message and BusinessMessage, and
  only when the text starts with a slash; \<^verbatim>\<open>parts[0]\<close> of
  \<^verbatim>\<open>messageText.slice(1).split(' ')\<close> (\<^verbatim>\<open>undefined\<close> on an empty array).
\<close>

definition extract_command :: "UpdateType option \<Rightarrow> TelegramUpdate \<Rightarrow> js_string option" where
  "extract_command ut u =
    (if ut = Some Message \<or> ut = Some BusinessMessage then
       (if startsWith_slash (messageText u) then
          (case split (of_char CHR '' '') (drop 1 (messageText u)) of [] \<Rightarrow> None | p # _ \<Rightarrow> Some p)
        else None)
     else None)"

section \<open>The execution context\<close>

text \<open>
  The context built once per request. Of the owning bot it keeps the token (read by
  \<^verbatim>\<open>getFile\<close>); the client \<^verbatim>\<open>bot.api\<close> is passed to the operations.
\<close>

record TelegramExecutionContext =
  bot_token :: js_string
  update :: TelegramUpdate
  update_type :: "UpdateType option"
  command :: "js_string option"

definition new_TelegramExecutionContext :: "js_string \<Rightarrow> TelegramUpdate \<Rightarrow> TelegramExecutionContext" where
  "new_TelegramExecutionContext tok u =
    \<lparr>bot_token = tok, update = u, update_type = classify u,
     command = extract_command (classify u) u\<rparr>"

section \<open>The rate limiter\<close>

text \<open>
  The static fields \<^verbatim>\<open>TelegramApi.requestCount\<close> and
  \<^verbatim>\<open>TelegramApi.resetTime\<close>, shared by every client. Times are the
  milliseconds of \<^verbatim>\<open>Date.now()\<close>.
\<close>

record RateLimiter =
  requestCount :: nat
  resetTime :: int

text \<open>
  \<^verbatim>\<open>rateLimit()\<close> in its four steps. The window test
  \<^verbatim>\<open>if (now > resetTime) { resetTime = now + 1000; requestCount = 0; }\<close>:
\<close>

definition rateLimit_window :: "int \<Rightarrow> RateLimiter \<Rightarrow> RateLimiter" where
  "rateLimit_window now s =
    (if now > resetTime s then s\<lparr>resetTime := now + 1000, requestCount := 0\<rparr> else s)"

text \<open>
  The cap test \<^verbatim>\<open>if (requestCount >= 30)\<close> with the time to sleep,
  \<^verbatim>\<open>waitTime = resetTime - now\<close>; \<open>None\<close> when the caller does not sleep:
\<close>

definition rateLimit_waitTime :: "int \<Rightarrow> RateLimiter \<Rightarrow> int option" where
  "rateLimit_waitTime now s = (if requestCount s \<ge> 30 then Some (resetTime s - now) else None)"

text \<open>
  After the sleep, \<^verbatim>\<open>resetTime = Date.now() + 1000; requestCount = 0\<close>, where
  \<open>wake\<close> is the time read then:
\<close>

definition rateLimit_fresh :: "int \<Rightarrow> RateLimiter \<Rightarrow> RateLimiter" where
  "rateLimit_fresh wake s = s\<lparr>resetTime := wake + 1000, requestCount := 0\<rparr>"

text \<open>The last statement, \<^verbatim>\<open>requestCount++\<close>:\<close>

definition rateLimit_count :: "RateLimiter \<Rightarrow> RateLimiter" where
  "rateLimit_count s = s\<lparr>requestCount := requestCount s + 1\<rparr>"

text \<open>
  One call, entered at time \<open>now\<close>, with no other call in between. It returns the
  time slept, if any, and the new state.
\<close>

definition rateLimit :: "int \<Rightarrow> int \<Rightarrow> RateLimiter \<Rightarrow> int option \<times> RateLimiter" where
  "rateLimit now wake s =
    (let s1 = rateLimit_window now s in
     case rateLimit_waitTime now s1 of
       None \<Rightarrow> (None, rateLimit_count s1)
     | Some waitTime \<Rightarrow> (Some waitTime, rateLimit_count (rateLimit_fresh wake s1)))"

text \<open>
  Between falling asleep and waking a call leaves the limiter to other callers. The two
  uninterrupted stretches of a call: from its entry to its end or to its sleep, and from
  its waking to its end. A run of the limiter is any sequence of such stretches.
\<close>

datatype limiter_step = Enters int | Wakes int

fun step_limiter :: "limiter_step \<Rightarrow> RateLimiter \<Rightarrow> RateLimiter" where
  "step_limiter (Enters now) s =
     (let s1 = rateLimit_window now s in
      case rateLimit_waitTime now s1 of None \<Rightarrow> rateLimit_count s1 | Some waitTime \<Rightarrow> s1)"
| "step_limiter (Wakes wake) s = rateLimit_count (rateLimit_fresh wake s)"

definition limiter_steps :: "limiter_step list \<Rightarrow> RateLimiter \<Rightarrow> RateLimiter" where
  "limiter_steps steps s = foldl (\<lambda>s' step. step_limiter step s') s steps"

text \<open>
  A sequence of calls, each with the time it enters and the time it would wake at; the
  result lists the sleeps in order.
\<close>

fun rateLimit_calls :: "(int \<times> int) list \<Rightarrow> RateLimiter \<Rightarrow> int option list \<times> RateLimiter" where
  "rateLimit_calls [] s = ([], s)"
| "rateLimit_calls ((now, wake) # cs) s =
     (let (w, s') = rateLimit now wake s; (ws, s'') = rateLimit_calls cs s' in (w # ws, s''))"

section \<open>Effects: the clock, the network, the console\<close>

text \<open>
  What an asynchronous function does besides returning: it reads the clock, enters the
  shared limiter, issues HTTP requests and writes to the console. The world holds the
  limiter, the number of clock readings so far, the trace of events in order, and the
  list \<open>calls\<close> of the operations the execution context asked of its client (kept for
  the statements about it; no code reads it). The environment answers: \<open>clock env n\<close>
  is the \<open>n\<close>-th reading of \<^verbatim>\<open>Date.now()\<close>, \<open>network env r\<close> the outcome
  of \<^verbatim>\<open>fetch\<close> on \<open>r\<close>.
\<close>

datatype js_error = TypeError | NetworkError | SyntaxError

record Response =
  status :: nat
  body :: js_string

record TelegramApiResponse =
  ok :: bool
  result_file_path :: js_string
  description :: "js_string option"

datatype InlineQueryResult =
    Article js_string js_string js_string "js_string option"
  | PhotoResult js_string js_string js_string "js_string option"
  | VideoResult js_string js_string js_string js_string js_string js_string

text \<open>
  Parameter objects are association lists in insertion order, with distinct keys.
  \<open>Lit\<close> is a number or a boolean, kept as its \<^verbatim>\<open>toString()\<close>.
\<close>

datatype js_value =
    Str js_string
  | Lit js_string
  | Undefined
  | Blob js_string
  | Results "InlineQueryResult list"
  | Commands "(js_string \<times> js_string) list"

type_synonym params = "(js_string \<times> js_value) list"

datatype form_value = Field js_string | File js_string js_string

datatype http_body = NoBody | JsonBody params | FormData "(js_string \<times> form_value) list"

record http_request =
  http_method :: js_string
  url :: js_string
  http_body :: http_body

datatype http_reply = Transport_failure | Reply Response "TelegramApiResponse option"

datatype api_method =
    SendMessage | SendPhoto | SendVideo | SendDocument | SendChatAction
  | AnswerInline | AnswerCallback | SetMyCommands

datatype event =
    RateLimit "int option"
  | Fetch http_request
  | ConsoleError js_string
  | ConsoleWarn js_string

record World =
  limiter :: RateLimiter
  clock_reads :: nat
  trace :: "event list"
  calls :: "(api_method \<times> params) list"

record Env =
  clock :: "nat \<Rightarrow> int"
  network :: "http_request \<Rightarrow> http_reply"

text \<open>A promise: run on a world, it rejects with an error or resolves with a value.\<close>

type_synonym 'a promise = "World \<Rightarrow> (js_error + 'a) \<times> World"

definition resolve :: "'a \<Rightarrow> 'a promise" where
  "resolve x = (\<lambda>w. (Inr x, w))"

definition reject :: "js_error \<Rightarrow> 'a promise" where
  "reject e = (\<lambda>w. (Inl e, w))"

definition await :: "'a promise \<Rightarrow> ('a \<Rightarrow> 'b promise) \<Rightarrow> 'b promise" where
  "await m f = (\<lambda>w. case m w of (Inl e, w') \<Rightarrow> (Inl e, w') | (Inr x, w') \<Rightarrow> f x w')"

definition try_catch :: "'a promise \<Rightarrow> (js_error \<Rightarrow> 'a promise) \<Rightarrow> 'a promise" where
  "try_catch m h = (\<lambda>w. case m w of (Inl e, w') \<Rightarrow> h e w' | (Inr x, w') \<Rightarrow> (Inr x, w'))"

definition emit :: "event \<Rightarrow> unit promise" where
  "emit e = (\<lambda>w. (Inr (), w\<lparr>trace := trace w @ [e]\<rparr>))"

text \<open>
  \<^verbatim>\<open>rateLimit()\<close> in the world: it reads the clock once, and once more
  when it has slept.
\<close>

definition rateLimit_io :: "Env \<Rightarrow> unit promise" where
  "rateLimit_io env =
    (\<lambda>w. let (waited, l) =
              rateLimit (clock env (clock_reads w)) (clock env (Suc (clock_reads w))) (limiter w)
          in (Inr (), w\<lparr>limiter := l,
                clock_reads := clock_reads w + (if waited = None then 1 else 2),
                trace := trace w @ [RateLimit waited]\<rparr>))"

definition fetch :: "Env \<Rightarrow> http_request \<Rightarrow> (Response \<times> TelegramApiResponse option) promise" where
  "fetch env req =
    (\<lambda>w. (case network env req of
             Transport_failure \<Rightarrow> Inl NetworkError
           | Reply r d \<Rightarrow> Inr (r, d),
          w\<lparr>trace := trace w @ [Fetch req]\<rparr>))"

text \<open>\<^verbatim>\<open>response.json()\<close>, which rejects on a body that is not JSON.\<close>

definition json :: "Response \<times> TelegramApiResponse option \<Rightarrow> TelegramApiResponse promise" where
  "json response = (case snd response of None \<Rightarrow> reject SyntaxError | Some d \<Rightarrow> resolve d)"

section \<open>The outbound client\<close>

definition apiUrl :: "js_string \<Rightarrow> js_string" where
  "apiUrl tok = js ''https://api.telegram.org/bot'' @ tok"

text \<open>
  The private helpers \<^verbatim>\<open>post\<close> and \<^verbatim>\<open>get\<close>: the limiter, then the
  request; a failure of the request or of \<^verbatim>\<open>response.json()\<close> is logged and
  thrown again. The query of \<^verbatim>\<open>get\<close> is passed as the string that
  \<^verbatim>\<open>URLSearchParams\<close> builds (its percent-encoding is left out).
\<close>

definition post :: "Env \<Rightarrow> js_string \<Rightarrow> js_string \<Rightarrow> params \<Rightarrow> TelegramApiResponse promise" where
  "post env tok endpoint params =
    await (rateLimit_io env) (\<lambda>_.
      try_catch
        (await (fetch env \<lparr>http_method = js ''POST'', url = apiUrl tok @ js ''/'' @ endpoint,
                  http_body = JsonBody params\<rparr>) json)
        (\<lambda>error. await (emit (ConsoleError (js ''Error in POST '' @ endpoint))) (\<lambda>_. reject error)))"

definition get :: "Env \<Rightarrow> js_string \<Rightarrow> js_string \<Rightarrow> js_string \<Rightarrow> TelegramApiResponse promise" where
  "get env tok endpoint query_string =
    await (rateLimit_io env) (\<lambda>_.
      try_catch
        (await (fetch env \<lparr>http_method = js ''GET'',
                  url = apiUrl tok @ js ''/'' @ endpoint @ js ''?'' @ query_string,
                  http_body = NoBody\<rparr>) json)
        (\<lambda>error. await (emit (ConsoleError (js ''Error in GET '' @ endpoint))) (\<lambda>_. reject error)))"

definition setMyCommands :: "Env \<Rightarrow> js_string \<Rightarrow> (js_string \<times> js_string) list \<Rightarrow> TelegramApiResponse promise" where
  "setMyCommands env tok commands =
    await (rateLimit_io env) (\<lambda>_.
      post env tok (js ''setMyCommands'') [(js ''commands'', Commands commands)])"

definition sendMessage :: "Env \<Rightarrow> js_string \<Rightarrow> params \<Rightarrow> TelegramApiResponse promise" where
  "sendMessage env tok params = post env tok (js ''sendMessage'') params"

definition sendPhoto :: "Env \<Rightarrow> js_string \<Rightarrow> params \<Rightarrow> TelegramApiResponse promise" where
  "sendPhoto env tok params = post env tok (js ''sendPhoto'') params"

definition sendVideo :: "Env \<Rightarrow> js_string \<Rightarrow> params \<Rightarrow> TelegramApiResponse promise" where
  "sendVideo env tok params = post env tok (js ''sendVideo'') params"

definition sendChatAction :: "Env \<Rightarrow> js_string \<Rightarrow> params \<Rightarrow> TelegramApiResponse promise" where
  "sendChatAction env tok params = post env tok (js ''sendChatAction'') params"

definition answerInline :: "Env \<Rightarrow> js_string \<Rightarrow> params \<Rightarrow> TelegramApiResponse promise" where
  "answerInline env tok params = post env tok (js ''answerInlineQuery'') params"

definition answerCallback :: "Env \<Rightarrow> js_string \<Rightarrow> params \<Rightarrow> TelegramApiResponse promise" where
  "answerCallback env tok params = post env tok (js ''answerCallbackQuery'') params"

text \<open>
  The values of \<^verbatim>\<open>sendDocument\<close>'s form: \<^verbatim>\<open>v.toString()\<close>, which throws
  on \<^verbatim>\<open>undefined\<close>; the string \<^verbatim>\<open>FormData.append\<close> makes of a value;
  and truthiness.
\<close>

fun join_commas :: "js_string list \<Rightarrow> js_string" where
  "join_commas [] = []"
| "join_commas [x] = x"
| "join_commas (x # y # ys) = x @ js '','' @ join_commas (y # ys)"

fun toString :: "js_value \<Rightarrow> js_error + js_string" where
  "toString (Str t) = Inr t"
| "toString (Lit t) = Inr t"
| "toString Undefined = Inl TypeError"
| "toString (Blob b) = Inr (js ''[object Blob]'')"
| "toString (Results rs) = Inr (join_commas (map (\<lambda>_. js ''[object Object]'') rs))"
| "toString (Commands cs) = Inr (join_commas (map (\<lambda>_. js ''[object Object]'') cs))"

definition as_form_string :: "js_value option \<Rightarrow> js_string" where
  "as_form_string v =
    (case v of None \<Rightarrow> js ''undefined''
     | Some x \<Rightarrow> (case toString x of Inl _ \<Rightarrow> js ''undefined'' | Inr t \<Rightarrow> t))"

fun truthy_value :: "js_value option \<Rightarrow> bool" where
  "truthy_value None = False"
| "truthy_value (Some (Str t)) = (t \<noteq> [])"
| "truthy_value (Some (Lit t)) = (t \<noteq> js ''0'' \<and> t \<noteq> js ''false'' \<and> t \<noteq> js ''NaN'')"
| "truthy_value (Some Undefined) = False"
| "truthy_value (Some (Blob b)) = True"
| "truthy_value (Some (Results rs)) = True"
| "truthy_value (Some (Commands cs)) = True"

text \<open>
  The loop \<^verbatim>\<open>for (const key in params)\<close> of \<^verbatim>\<open>sendDocument\<close>: every
  key outside the five named ones is appended with \<^verbatim>\<open>params[key].toString()\<close>.
\<close>

definition named_keys :: "js_string list" where
  "named_keys = [js ''chat_id'', js ''document'', js ''caption'', js ''reply_to_message_id'',
     js ''business_connection_id'']"

fun extra_fields :: "params \<Rightarrow> js_error + (js_string \<times> form_value) list" where
  "extra_fields [] = Inr []"
| "extra_fields ((key, v) # rest) =
     (if key \<in> set named_keys then extra_fields rest
      else (case toString v of
              Inl e \<Rightarrow> Inl e
            | Inr t \<Rightarrow> (case extra_fields rest of
                          Inl e \<Rightarrow> Inl e
                        | Inr fs \<Rightarrow> Inr ((key, Field t) # fs))))"

definition optional_field :: "params \<Rightarrow> js_string \<Rightarrow> (js_string \<times> form_value) list" where
  "optional_field params key =
    (if truthy_value (map_of params key) then [(key, Field (as_form_string (map_of params key)))]
     else [])"

text \<open>
  \<^verbatim>\<open>sendDocument\<close>: a \<^verbatim>\<open>Blob\<close> goes out as a multipart form, built and
  fetched by the method itself; a file id or URL goes through \<^verbatim>\<open>post\<close>.
\<close>

definition sendDocument :: "Env \<Rightarrow> js_string \<Rightarrow> params \<Rightarrow> TelegramApiResponse promise" where
  "sendDocument env tok params =
    (case map_of params (js ''document'') of
       Some (Blob b) \<Rightarrow>
         (case extra_fields params of
            Inl e \<Rightarrow> reject e
          | Inr extras \<Rightarrow>
              try_catch
                (await (fetch env \<lparr>http_method = js ''POST'', url = apiUrl tok @ js ''/sendDocument'',
                          http_body = FormData
                            ([(js ''chat_id'', Field (as_form_string (map_of params (js ''chat_id'')))),
                              (js ''document'', File b (js ''document.txt''))]
                             @ optional_field params (js ''caption'')
                             @ optional_field params (js ''reply_to_message_id'')
                             @ optional_field params (js ''business_connection_id'')
                             @ extras)\<rparr>) json)
                (\<lambda>error. await (emit (ConsoleError (js ''Error in sendDocument with Blob'')))
                   (\<lambda>_. reject error)))
     | _ \<Rightarrow> post env tok (js ''sendDocument'') params)"

text \<open>
  The argument of \<^verbatim>\<open>getFile\<close>: declared as an object \<^verbatim>\<open>{ file_id }\<close>;
  at run time a caller may pass a bare string, whose property \<^verbatim>\<open>file_id\<close>
  is \<^verbatim>\<open>undefined\<close>.
\<close>

datatype getFile_argument = GetFileParams "js_string option" | BareString js_string

fun file_id :: "getFile_argument \<Rightarrow> js_string option" where
  "file_id (GetFileParams f) = f"
| "file_id (BareString t) = None"

definition getFile :: "Env \<Rightarrow> js_string \<Rightarrow> getFile_argument \<Rightarrow> js_string \<Rightarrow> Response promise" where
  "getFile env tok params token =
    await (rateLimit_io env) (\<lambda>_.
      case js_or (file_id params) None of
        None \<Rightarrow> resolve \<lparr>status = 400, body = js ''file_id is required''\<rparr>
      | Some fid \<Rightarrow>
          await (get env tok (js ''getFile'') (js ''file_id='' @ fid)) (\<lambda>data.
            if ok data then
              await (fetch env \<lparr>http_method = js ''GET'',
                        url = js ''https://api.telegram.org/file/bot'' @ token @ js ''/''
                          @ result_file_path data,
                        http_body = NoBody\<rparr>)
                (\<lambda>response. resolve (fst response))
            else
              await (emit (ConsoleError (js ''Error in getFile''))) (\<lambda>_.
                resolve \<lparr>status = 400,
                  body = js ''Error: ''
                    @ (case description data of None \<Rightarrow> js ''undefined'' | Some d \<Rightarrow> d)\<rparr>)))"

text \<open>
  A client as the bot holds it (\<^verbatim>\<open>bot.api\<close>, injected or built from the token):
  its typed operations and \<^verbatim>\<open>getFile\<close>.
\<close>

record Api =
  api_call :: "api_method \<Rightarrow> params \<Rightarrow> TelegramApiResponse promise"
  api_getFile :: "getFile_argument \<Rightarrow> js_string \<Rightarrow> Response promise"

fun TelegramApi_call :: "Env \<Rightarrow> js_string \<Rightarrow> api_method \<Rightarrow> params \<Rightarrow> TelegramApiResponse promise" where
  "TelegramApi_call env tok SendMessage params = sendMessage env tok params"
| "TelegramApi_call env tok SendPhoto params = sendPhoto env tok params"
| "TelegramApi_call env tok SendVideo params = sendVideo env tok params"
| "TelegramApi_call env tok SendDocument params = sendDocument env tok params"
| "TelegramApi_call env tok SendChatAction params = sendChatAction env tok params"
| "TelegramApi_call env tok AnswerInline params = answerInline env tok params"
| "TelegramApi_call env tok AnswerCallback params = answerCallback env tok params"
| "TelegramApi_call env tok SetMyCommands params =
     setMyCommands env tok (case map_of params (js ''commands'') of Some (Commands cs) \<Rightarrow> cs | _ \<Rightarrow> [])"

definition TelegramApi :: "Env \<Rightarrow> js_string \<Rightarrow> Api" where
  "TelegramApi env tok = \<lparr>api_call = TelegramApi_call env tok, api_getFile = getFile env tok\<rparr>"


section \<open>The reply channel of the execution context\<close>

text \<open>
  An object literal with a spread, \<^verbatim>\<open>{ ...options, k1: v1, k2: v2 }\<close>: each key
  replaces an entry of the same name or is added at the end.
\<close>

definition assign :: "params \<Rightarrow> (js_string \<times> js_value) list \<Rightarrow> params" where
  "assign options kvs = foldl (\<lambda>obj (k, v). AList.update k v obj) options kvs"

definition optional :: "js_string option \<Rightarrow> js_value" where
  "optional v = (case v of None \<Rightarrow> Undefined | Some t \<Rightarrow> Str t)"

definition getChatId :: "TelegramExecutionContext \<Rightarrow> js_string" where
  "getChatId ctx =
    (if update_type ctx = Some Message \<or> update_type ctx = Some Photo
        \<or> update_type ctx = Some Document
     then (case message (update ctx) of None \<Rightarrow> [] | Some m \<Rightarrow> chat_id m)
     else if update_type ctx = Some BusinessMessage
     then (case business_message (update ctx) of None \<Rightarrow> [] | Some m \<Rightarrow> chat_id m)
     else [])"

definition getReplyToMessageId :: "TelegramExecutionContext \<Rightarrow> js_string option" where
  "getReplyToMessageId ctx =
    (if update_type ctx = Some Message \<or> update_type ctx = Some Photo
        \<or> update_type ctx = Some Document
     then map_option message_id (message (update ctx))
     else if update_type ctx = Some BusinessMessage
     then map_option message_id (business_message (update ctx))
     else None)"

text \<open>\<^verbatim>\<open>this.update.inline_query?.id.toString() ?? ''\<close>.\<close>

definition inline_query_id_or_empty :: "TelegramExecutionContext \<Rightarrow> js_string" where
  "inline_query_id_or_empty ctx =
    (case inline_query (update ctx) of None \<Rightarrow> [] | Some q \<Rightarrow> inline_query_id q)"

text \<open>
  \<^verbatim>\<open>this.update.business_message?.business_connection_id.toString()\<close>: a
  \<^verbatim>\<open>TypeError\<close> when the business message has no connection id.
\<close>

definition business_connection_id_string :: "TelegramExecutionContext \<Rightarrow> js_error + js_value" where
  "business_connection_id_string ctx =
    (case business_message (update ctx) of
       None \<Rightarrow> Inr Undefined
     | Some m \<Rightarrow> (case business_connection_id m of None \<Rightarrow> Inl TypeError | Some b \<Rightarrow> Inr (Str b)))"

text \<open>
  A call \<^verbatim>\<open>this.api.method(params)\<close>. It is added to \<open>calls\<close>, whatever the
  client does to the world.
\<close>

definition call :: "Api \<Rightarrow> api_method \<Rightarrow> params \<Rightarrow> TelegramApiResponse promise" where
  "call api m params =
    (\<lambda>w. case api_call api m params w of (r, w') \<Rightarrow> (r, w'\<lparr>calls := calls w @ [(m, params)]\<rparr>))"

definition handleApiResponse :: "TelegramApiResponse \<Rightarrow> js_string \<Rightarrow> unit promise" where
  "handleApiResponse response context =
    (if \<not> ok response then emit (ConsoleError (js ''Error in '' @ context)) else resolve ())"

text \<open>The private \<^verbatim>\<open>sendMessage(options, context)\<close> of the context.\<close>

definition ctx_sendMessage :: "Api \<Rightarrow> params \<Rightarrow> js_string \<Rightarrow> unit promise" where
  "ctx_sendMessage api options context =
    try_catch
      (await (call api SendMessage options) (\<lambda>response. handleApiResponse response context))
      (\<lambda>error. emit (ConsoleError (js ''Exception in '' @ context)))"

definition MAX_MESSAGE_LENGTH :: nat where
  "MAX_MESSAGE_LENGTH = 4096"

text \<open>The caption of a text sent as a document: its twenty code units.\<close>

definition document_caption :: js_string where
  "document_caption =
    [0x8FD9, 0x662F, 0x4E00, 0x4E2A, 0x8D85, 0x957F, 0x6587, 0x672C, 0x6587, 0x4EF6,
     0xFF0C, 0x65E0, 0x6CD5, 0x5728, 0x6D88, 0x606F, 0x4E2D, 0x663E, 0x793A, 0x3002]"

definition createTextDocument :: "js_string \<Rightarrow> js_value" where
  "createTextDocument t = Blob t"

definition commonOptions ::
  "TelegramExecutionContext \<Rightarrow> js_string option \<Rightarrow> params \<Rightarrow> params" where
  "commonOptions ctx parse_mode options =
    assign options
      [(js ''chat_id'', Str (getChatId ctx)),
       (js ''reply_to_message_id'', optional (getReplyToMessageId ctx)),
       (js ''parse_mode'', optional parse_mode)]"

text \<open>The three ways \<^verbatim>\<open>reply\<close> sends a text.\<close>

definition documentOptions ::
  "TelegramExecutionContext \<Rightarrow> js_string \<Rightarrow> js_string option \<Rightarrow> params \<Rightarrow> params" where
  "documentOptions ctx msg parse_mode options =
    assign (commonOptions ctx parse_mode options)
      [(js ''document'', createTextDocument msg), (js ''caption'', Str document_caption)]"

definition reply_as_document ::
  "Api \<Rightarrow> TelegramExecutionContext \<Rightarrow> js_string \<Rightarrow> js_string option \<Rightarrow> params \<Rightarrow> unit promise" where
  "reply_as_document api ctx msg parse_mode options =
    try_catch
      (await (call api SendDocument (documentOptions ctx msg parse_mode options))
         (\<lambda>response. handleApiResponse response (js ''sendDocument'')))
      (\<lambda>error. emit (ConsoleError (js ''Exception in sendDocument'')))"

definition answer_inline ::
  "Api \<Rightarrow> TelegramExecutionContext \<Rightarrow> InlineQueryResult list \<Rightarrow> js_string \<Rightarrow> unit promise" where
  "answer_inline api ctx results context =
    try_catch
      (await (call api AnswerInline
                [(js ''inline_query_id'', Str (inline_query_id_or_empty ctx)),
                 (js ''results'', Results results)])
         (\<lambda>response. handleApiResponse response (js ''answerInline'')))
      (\<lambda>error. emit (ConsoleError (js ''Exception in '' @ context)))"

definition reply_business ::
  "Api \<Rightarrow> TelegramExecutionContext \<Rightarrow> js_string \<Rightarrow> js_string option \<Rightarrow> unit promise" where
  "reply_business api ctx msg parse_mode =
    (case business_connection_id_string ctx of
       Inl e \<Rightarrow> reject e
     | Inr connection \<Rightarrow>
         await (call api SendMessage
                  [(js ''chat_id'', Str (case business_message (update ctx) of
                       None \<Rightarrow> [] | Some m \<Rightarrow> chat_id m)),
                   (js ''text'', Str msg),
                   (js ''business_connection_id'', connection),
                   (js ''parse_mode'', optional parse_mode)])
           (\<lambda>response. handleApiResponse response (js ''sendMessage'')))"

definition reply ::
  "Api \<Rightarrow> TelegramExecutionContext \<Rightarrow> js_string \<Rightarrow> js_string option \<Rightarrow> params \<Rightarrow> unit promise" where
  "reply api ctx msg parse_mode options =
    (case update_type ctx of
       None \<Rightarrow> emit (ConsoleWarn (js ''No update type set.''))
     | Some ut \<Rightarrow>
         if length msg > MAX_MESSAGE_LENGTH \<and> ut \<noteq> Inline
         then reply_as_document api ctx msg parse_mode options
         else (case ut of
                 Message \<Rightarrow>
                   ctx_sendMessage api
                     (assign (commonOptions ctx parse_mode options) [(js ''text'', Str msg)])
                     (js ''sendMessage'')
               | Photo \<Rightarrow>
                   ctx_sendMessage api
                     (assign (commonOptions ctx parse_mode options) [(js ''text'', Str msg)])
                     (js ''sendMessage'')
               | Document \<Rightarrow>
                   ctx_sendMessage api
                     (assign (commonOptions ctx parse_mode options) [(js ''text'', Str msg)])
                     (js ''sendMessage'')
               | Inline \<Rightarrow>
                   answer_inline api ctx
                     [Article (js ''1'') msg msg (js_or parse_mode None)] (js ''answerInline'')
               | BusinessMessage \<Rightarrow> reply_business api ctx msg parse_mode
               | Callback \<Rightarrow> emit (ConsoleWarn (js ''Unhandled update type''))))"

definition replyPhoto ::
  "Api \<Rightarrow> TelegramExecutionContext \<Rightarrow> js_string \<Rightarrow> js_string \<Rightarrow> params \<Rightarrow> unit promise" where
  "replyPhoto api ctx photo_ref caption options =
    (case update_type ctx of
       None \<Rightarrow> emit (ConsoleWarn (js ''No update type set.''))
     | Some ut \<Rightarrow>
         if ut = Message \<or> ut = Photo then
           await (call api SendPhoto
                    (assign options
                       [(js ''chat_id'', Str (getChatId ctx)),
                        (js ''reply_to_message_id'', optional (getReplyToMessageId ctx)),
                        (js ''photo'', Str photo_ref),
                        (js ''caption'', Str caption)]))
             (\<lambda>response. resolve ())
         else if ut = Inline then
           answer_inline api ctx
             [PhotoResult (js ''1'') photo_ref photo_ref (js_or (Some caption) None)] (js ''answerInline'')
         else emit (ConsoleWarn (js ''Unhandled update type for replyPhoto'')))"

definition replyVideo ::
  "Api \<Rightarrow> TelegramExecutionContext \<Rightarrow> js_string \<Rightarrow> params \<Rightarrow> unit promise" where
  "replyVideo api ctx video options =
    (case update_type ctx of
       None \<Rightarrow> emit (ConsoleWarn (js ''No update type set.''))
     | Some ut \<Rightarrow>
         if ut = Message then
           await (call api SendVideo
                    (assign options
                       [(js ''chat_id'', Str (getChatId ctx)),
                        (js ''reply_to_message_id'', optional (getReplyToMessageId ctx)),
                        (js ''video'', Str video)]))
             (\<lambda>response. resolve ())
         else if ut = Inline then
           answer_inline api ctx
             [VideoResult (js ''1'') video (js ''video/mp4'') (js ''https://example.com/thumb.jpg'')
                (js ''Video Title'') (js ''Video Caption'')] (js ''answerInline'')
         else emit (ConsoleWarn (js ''Unhandled update type for replyVideo'')))"

definition sendTyping :: "Api \<Rightarrow> TelegramExecutionContext \<Rightarrow> unit promise" where
  "sendTyping api ctx =
    (case update_type ctx of
       None \<Rightarrow> emit (ConsoleWarn (js ''No update type set.''))
     | Some ut \<Rightarrow>
         if ut = Message \<or> ut = Photo \<or> ut = Document then
           await (call api SendChatAction
                    [(js ''chat_id'', Str (getChatId ctx)), (js ''action'', Str (js ''typing''))])
             (\<lambda>response. resolve ())
         else if ut = BusinessMessage then
           (case business_connection_id_string ctx of
              Inl e \<Rightarrow> reject e
            | Inr connection \<Rightarrow>
                await (call api SendChatAction
                         [(js ''chat_id'', Str (getChatId ctx)), (js ''action'', Str (js ''typing'')),
                          (js ''business_connection_id'', connection)])
                  (\<lambda>response. resolve ()))
         else emit (ConsoleWarn (js ''Unhandled update type for sendTyping'')))"

definition replyInline ::
  "Api \<Rightarrow> TelegramExecutionContext \<Rightarrow> js_string \<Rightarrow> js_string \<Rightarrow> js_string option \<Rightarrow> unit promise" where
  "replyInline api ctx title msg parse_mode =
    (if update_type ctx \<noteq> Some Inline
     then emit (ConsoleWarn (js ''replyInline called on non-inline update type''))
     else answer_inline api ctx
            [Article (js ''1'') title msg (js_or parse_mode None)] (js ''replyInline''))"

text \<open>
  \<^verbatim>\<open>getFile(file_id)\<close> of the context:
  \<^verbatim>\<open>return await this.api.getFile(file_id, this.bot.token)\<close>. The client receives the
  string itself as its first argument.
\<close>

definition ctx_getFile :: "Api \<Rightarrow> TelegramExecutionContext \<Rightarrow> js_string \<Rightarrow> Response promise" where
  "ctx_getFile api ctx fid = api_getFile api (BareString fid) (bot_token ctx)"

section \<open>The dispatch table\<close>

text \<open>
  A handler takes the context and returns a response, or throws. The registries
  \<^verbatim>\<open>commands\<close> and \<^verbatim>\<open>events\<close> are the own properties of two plain
  objects, as \<^verbatim>\<open>onCommand\<close> and \<^verbatim>\<open>onEvent\<close> set them;
  \<^verbatim>\<open>events\<close> is keyed by the kinds. (A registration under the name
  \<^verbatim>\<open>__proto__\<close> sets no own property; it is outside this model.)
\<close>

type_synonym handler = "TelegramExecutionContext \<Rightarrow> Response promise"

record TelegramBot =
  token :: js_string
  commands :: "js_string \<Rightarrow> handler option"
  events :: "UpdateType \<Rightarrow> handler option"

text \<open>
  The request as \<^verbatim>\<open>handle\<close> reads it: the path of its URL, its method, the
  \<^verbatim>\<open>command\<close> parameter of the query, and what \<^verbatim>\<open>request.json()\<close>
  gives: \<open>None\<close> when it rejects, or gives \<^verbatim>\<open>null\<close>, whose properties cannot
  be read.
\<close>

record Request =
  pathname :: js_string
  request_method :: js_string
  search_command :: "js_string option"
  json_body :: "TelegramUpdate option"

text \<open>
  A read \<^verbatim>\<open>obj[key]\<close> of a plain object finds an own property, or else a member
  inherited from \<^verbatim>\<open>Object.prototype\<close>; every such member is truthy.
\<close>

definition Object_prototype_members :: "js_string list" where
  "Object_prototype_members =
    [js ''constructor'', js ''__defineGetter__'', js ''__defineSetter__'', js ''hasOwnProperty'',
     js ''__lookupGetter__'', js ''__lookupSetter__'', js ''isPrototypeOf'', js ''propertyIsEnumerable'',
     js ''toString'', js ''valueOf'', js ''__proto__'', js ''toLocaleString'']"

datatype 'h member = Own 'h | Inherited js_string

definition get_member :: "(js_string \<Rightarrow> 'h option) \<Rightarrow> js_string \<Rightarrow> 'h member option" where
  "get_member obj key =
    (case obj key of
       Some h \<Rightarrow> Some (Own h)
     | None \<Rightarrow> if key \<in> set Object_prototype_members then Some (Inherited key) else None)"

text \<open>
  What \<^verbatim>\<open>handle\<close> did: the value it returned, the registered handlers it invoked
  in order, and whether it read the body. When the command names an inherited member,
  \<^verbatim>\<open>handle\<close> applies that member to the context; what comes of it is kept as
  \<open>Outcome_of_inherited_member\<close> and not modelled further.
\<close>

datatype handler_ref = CommandHandler js_string | EventHandler UpdateType

datatype returned = Returned Response | Outcome_of_inherited_member js_string

record handled =
  returned :: returned
  invoked :: "handler_ref list"
  body_read :: bool

definition ok_response :: Response where
  "ok_response = \<lparr>status = 200, body = js ''ok''\<rparr>"

definition server_error :: Response where
  "server_error = \<lparr>status = 500, body = js ''Internal Server Error''\<rparr>"

text \<open>
  \<^verbatim>\<open>return await handler(ctx)\<close> inside the \<^verbatim>\<open>try\<close> of \<^verbatim>\<open>handle\<close>:
  a handler that throws gives the server error.
\<close>

definition invoke :: "handler_ref \<Rightarrow> handler \<Rightarrow> TelegramExecutionContext \<Rightarrow> World \<Rightarrow> handled \<times> World" where
  "invoke ref h ctx w =
    (case h ctx w of
       (Inr r, w') \<Rightarrow> (\<lparr>returned = Returned r, invoked = [ref], body_read = True\<rparr>, w')
     | (Inl e, w') \<Rightarrow> (\<lparr>returned = Returned server_error, invoked = [ref], body_read = True\<rparr>, w'))"

text \<open>
  \<^verbatim>\<open>handle(request)\<close>, with the test
  \<^verbatim>\<open>ctx.command && this.commands[ctx.command]\<close> first. The class
  \<^verbatim>\<open>Webhook\<close> is not among the sources: its \<^verbatim>\<open>set()\<close> is a parameter, and
  building it (\<^verbatim>\<open>new Webhook(this.token, request)\<close>) is taken not to throw. The
  console output of \<^verbatim>\<open>handle\<close> is left out.
\<close>

definition command_member ::
  "TelegramBot \<Rightarrow> TelegramExecutionContext \<Rightarrow> (js_string \<times> handler member) option" where
  "command_member this ctx =
    (case command ctx of
       None \<Rightarrow> None
     | Some c \<Rightarrow> if c = [] then None else map_option (Pair c) (get_member (commands this) c))"

definition handle :: "Response promise \<Rightarrow> TelegramBot \<Rightarrow> Request \<Rightarrow> World \<Rightarrow> handled \<times> World" where
  "handle webhook_set this request w =
    (if (js ''/'') @ token this = pathname request then
       (if request_method request = js ''POST'' then
          (case json_body request of
             None \<Rightarrow> (\<lparr>returned = Returned server_error, invoked = [], body_read = True\<rparr>, w)
           | Some u \<Rightarrow>
               (let ctx = new_TelegramExecutionContext (token this) u in
                case update_type ctx of
                  Some ut \<Rightarrow>
                    (case command_member this ctx of
                       Some (c, Own h) \<Rightarrow> invoke (CommandHandler c) h ctx w
                     | Some (c, Inherited name) \<Rightarrow>
                         (\<lparr>returned = Outcome_of_inherited_member name, invoked = [],
                           body_read = True\<rparr>, w)
                     | None \<Rightarrow>
                         (case events this ut of
                            Some g \<Rightarrow> invoke (EventHandler ut) g ctx w
                          | None \<Rightarrow>
                              (\<lparr>returned = Returned
                                  \<lparr>status = 400, body = js ''No handler for this update type''\<rparr>,
                                invoked = [], body_read = True\<rparr>, w)))
                | None \<Rightarrow>
                    (\<lparr>returned = Returned \<lparr>status = 400, body = js ''Unhandled update type''\<rparr>,
                      invoked = [], body_read = True\<rparr>, w)))
        else if request_method request = js ''GET'' \<and> search_command request = Some (js ''set'') then
          (case webhook_set w of
             (Inr r, w') \<Rightarrow> (\<lparr>returned = Returned r, invoked = [], body_read = False\<rparr>, w')
           | (Inl e, w') \<Rightarrow>
               (\<lparr>returned = Returned server_error, invoked = [], body_read = False\<rparr>, w'))
        else (\<lparr>returned = Returned ok_response, invoked = [], body_read = False\<rparr>, w))
     else (\<lparr>returned = Returned ok_response, invoked = [], body_read = False\<rparr>, w))"

text \<open>A client error: a status from 400 to 499.\<close>

definition client_error :: "returned \<Rightarrow> bool" where
  "client_error r = (case r of Returned x \<Rightarrow> 400 \<le> status x \<and> status x < 500 | _ \<Rightarrow> False)"

section \<open>The specification's words, and examples\<close>

text \<open>
  The predicates of the classifier as the specification names them. A message "has" a
  photo or a document when the field is present; it "has text" when the text is present
  and not empty; likewise for the text of an inline query and the id of a callback query.
\<close>

definition message_has_photo :: "TelegramUpdate \<Rightarrow> bool" where
  "message_has_photo u = (case message u of None \<Rightarrow> False | Some m \<Rightarrow> photo m \<noteq> None)"

definition message_has_document :: "TelegramUpdate \<Rightarrow> bool" where
  "message_has_document u = (case message u of None \<Rightarrow> False | Some m \<Rightarrow> document m \<noteq> None)"

definition message_has_text :: "TelegramUpdate \<Rightarrow> bool" where
  "message_has_text u = (case message u of None \<Rightarrow> False | Some m \<Rightarrow> truthy (msg_text m))"

definition inline_query_has_text :: "TelegramUpdate \<Rightarrow> bool" where
  "inline_query_has_text u = (case inline_query u of None \<Rightarrow> False | Some q \<Rightarrow> query q \<noteq> [])"

definition callback_query_has_id :: "TelegramUpdate \<Rightarrow> bool" where
  "callback_query_has_id u =
    (case callback_query u of None \<Rightarrow> False | Some c \<Rightarrow> callback_query_id c \<noteq> [])"

definition business_message_present :: "TelegramUpdate \<Rightarrow> bool" where
  "business_message_present u = (business_message u \<noteq> None)"

text \<open>The first match of the ordered list, as a chain of tests.\<close>

definition first_matching_kind :: "TelegramUpdate \<Rightarrow> UpdateType option" where
  "first_matching_kind u =
    (if message_has_photo u then Some Photo
     else if message_has_document u then Some Document
     else if message_has_text u then Some Message
     else if inline_query_has_text u then Some Inline
     else if callback_query_has_id u then Some Callback
     else if business_message_present u then Some BusinessMessage
     else None)"

text \<open>
  White space, and the first white-space-delimited token of a text (the specification's
  reading of a command), next to the token the code takes: up to the first space.
\<close>

definition is_whitespace :: "code_unit \<Rightarrow> bool" where
  "is_whitespace c = (c \<in> set [0x20, 0x09, 0x0A, 0x0B, 0x0C, 0x0D])"

definition first_whitespace_delimited_token :: "js_string \<Rightarrow> js_string" where
  "first_whitespace_delimited_token s = takeWhile (\<lambda>c. \<not> is_whitespace c) s"

definition first_space_delimited_token :: "js_string \<Rightarrow> js_string" where
  "first_space_delimited_token s = takeWhile (\<lambda>c. c \<noteq> (of_char CHR '' '')) s"

text \<open>The source text of a kind: the message's text, or the business message's, default empty.\<close>

definition source_text :: "UpdateType \<Rightarrow> TelegramUpdate \<Rightarrow> js_string" where
  "source_text k u =
    (case Option.bind (if k = BusinessMessage then business_message u else message u) msg_text of
       None \<Rightarrow> [] | Some t \<Rightarrow> t)"

text \<open>The command of a source text: after the slash, up to the first space.\<close>

definition slash_command :: "js_string \<Rightarrow> js_string option" where
  "slash_command t =
    (if startsWith_slash t then Some (first_space_delimited_token (drop 1 t)) else None)"

text \<open>Updates for the examples: a message, or an inline query, with the usual fields.\<close>

definition text_body :: "js_string \<Rightarrow> TelegramMessage" where
  "text_body t =
    \<lparr>msg_text = Some t, photo = None, document = None, chat_id = js ''42'',
     message_id = js ''7'', business_connection_id = None\<rparr>"

definition photo_body :: "js_string \<Rightarrow> TelegramMessage" where
  "photo_body t = (text_body t)\<lparr>photo := Some [js ''file-1'']\<rparr>"

definition text_message :: "js_string \<Rightarrow> TelegramUpdate" where
  "text_message t =
    \<lparr>message = Some (text_body t), business_message = None, inline_query = None,
     callback_query = None\<rparr>"

definition photo_message :: "js_string \<Rightarrow> TelegramUpdate" where
  "photo_message t =
    \<lparr>message = Some (photo_body t), business_message = None, inline_query = None,
     callback_query = None\<rparr>"


text \<open>
  A command that finds nothing in the registry of commands: absent, empty, or a name that
  is neither registered nor a member the registry object inherits.
\<close>

definition names_no_member :: "TelegramBot \<Rightarrow> js_string option \<Rightarrow> bool" where
  "names_no_member this c =
    (case c of
       None \<Rightarrow> True
     | Some n \<Rightarrow> n = [] \<or> (commands this n = None \<and> n \<notin> set Object_prototype_members))"

text \<open>Bots, requests and a world for the examples.\<close>

definition command_reply :: handler where
  "command_reply = (\<lambda>ctx. resolve \<lparr>status = 200, body = js ''command''\<rparr>)"

definition event_reply :: handler where
  "event_reply = (\<lambda>ctx. resolve \<lparr>status = 200, body = js ''event''\<rparr>)"

definition start_bot :: TelegramBot where
  "start_bot =
    \<lparr>token = js ''123'', commands = [js ''start'' \<mapsto> command_reply], events = [Message \<mapsto> event_reply]\<rparr>"

definition empty_name_bot :: TelegramBot where
  "empty_name_bot =
    \<lparr>token = js ''123'', commands = [[] \<mapsto> command_reply], events = [Message \<mapsto> event_reply]\<rparr>"

definition post_update :: "TelegramUpdate \<Rightarrow> Request" where
  "post_update u =
    \<lparr>pathname = js ''/123'', request_method = js ''POST'', search_command = None, json_body = Some u\<rparr>"

definition initial_world :: World where
  "initial_world =
    \<lparr>limiter = \<lparr>requestCount = 0, resetTime = 1000\<rparr>, clock_reads = 0, trace = [], calls = []\<rparr>"


definition offline :: Env where
  "offline = \<lparr>clock = (\<lambda>n. 0), network = (\<lambda>r. Transport_failure)\<rparr>"

definition online :: Env where
  "online =
    \<lparr>clock = (\<lambda>n. 0),
     network = (\<lambda>r. Reply \<lparr>status = 200, body = js ''(ok)''\<rparr>
                  (Some \<lparr>ok = True, result_file_path = js ''documents/file_1.txt'', description = None\<rparr>))\<rparr>"

definition refusing :: Env where
  "refusing =
    \<lparr>clock = (\<lambda>n. 0),
     network = (\<lambda>r. Reply \<lparr>status = 400, body = js ''(not ok)''\<rparr>
                  (Some \<lparr>ok = False, result_file_path = [], description = Some (js ''Bad Request'')\<rparr>))\<rparr>"

text \<open>
  The limiter's budget as the trace shows it: the number of entries of the limiter, and
  the number of those that slept.
\<close>

definition limiter_entries :: "event list \<Rightarrow> nat" where
  "limiter_entries tr = length (filter (\<lambda>e. case e of RateLimit _ \<Rightarrow> True | _ \<Rightarrow> False) tr)"

definition sleeps :: "event list \<Rightarrow> nat" where
  "sleeps tr = length (filter (\<lambda>e. case e of RateLimit (Some _) \<Rightarrow> True | _ \<Rightarrow> False) tr)"


text \<open>
  Calls of \<^verbatim>\<open>setMyCommands\<close> and of \<^verbatim>\<open>getFile\<close> (with a file id and the
  token for the download) run one after the other, each to its end, whatever it returns.
  A call reaches the helper \<^verbatim>\<open>post\<close> or \<^verbatim>\<open>get\<close> unless it is a
  \<^verbatim>\<open>getFile\<close> with an empty file id.
\<close>

datatype client_call = Call_setMyCommands "(js_string \<times> js_string) list" | Call_getFile js_string js_string

fun run_call :: "Env \<Rightarrow> js_string \<Rightarrow> client_call \<Rightarrow> World \<Rightarrow> World" where
  "run_call env tok (Call_setMyCommands cs) w = snd (setMyCommands env tok cs w)"
| "run_call env tok (Call_getFile fid file_token) w =
     snd (getFile env tok (GetFileParams (Some fid)) file_token w)"

fun reaches_helper :: "client_call \<Rightarrow> bool" where
  "reaches_helper (Call_setMyCommands cs) = True"
| "reaches_helper (Call_getFile fid file_token) = (fid \<noteq> [])"

definition run_calls :: "Env \<Rightarrow> js_string \<Rightarrow> client_call list \<Rightarrow> World \<Rightarrow> World" where
  "run_calls env tok cs w = foldl (\<lambda>w' c. run_call env tok c w') w cs"

text \<open>
  What the limiter and the clock make of a world, and what one entry of the limiter does
  to it.
\<close>

definition budget :: "World \<Rightarrow> RateLimiter \<times> nat \<times> nat \<times> nat" where
  "budget w = (limiter w, clock_reads w, limiter_entries (trace w), sleeps (trace w))"

definition enter :: "Env \<Rightarrow> RateLimiter \<times> nat \<times> nat \<times> nat \<Rightarrow> RateLimiter \<times> nat \<times> nat \<times> nat" where
  "enter env b =
    (case b of (l, reads, entries, slept) \<Rightarrow>
       (case rateLimit (clock env reads) (clock env (Suc reads)) l of
          (None, l') \<Rightarrow> (l', reads + 1, Suc entries, slept)
        | (Some t, l') \<Rightarrow> (l', reads + 2, Suc entries, Suc slept)))"

text \<open>Fifteen calls for the example.\<close>

definition fifteen_calls :: "client_call list" where
  "fifteen_calls =
    replicate 14 (Call_setMyCommands [(js ''start'', js ''Start the bot'')]) @ [Call_getFile (js ''abc'') (js ''123'')]"

section \<open>Literals\<close>

lemma js_Nil [simp]: "js [] = []"
  by (simp add: js_def)

lemma js_eq_Nil [simp]: "(js s = []) = (s = [])"
  by (simp add: js_def)

lemma length_js [simp]: "length (js s) = length s"
  by (simp add: js_def)

section \<open>Classification\<close>

lemma message_has_photo_bind:
  "(Option.bind (message u) photo = None) = (\<not> message_has_photo u)"
  "(\<exists>y. Option.bind (message u) photo = Some y) = message_has_photo u"
  by (simp_all add: message_has_photo_def split: option.splits)

lemma message_has_document_bind:
  "(Option.bind (message u) document = None) = (\<not> message_has_document u)"
  "(\<exists>y. Option.bind (message u) document = Some y) = message_has_document u"
  by (simp_all add: message_has_document_def split: option.splits)

lemma message_has_text_bind: "truthy (Option.bind (message u) msg_text) = message_has_text u"
  by (simp add: message_has_text_def truthy_def split: option.splits)

lemma inline_query_has_text_bind:
  "truthy (map_option query (inline_query u)) = inline_query_has_text u"
  by (simp add: inline_query_has_text_def truthy_def split: option.splits)

lemma callback_query_has_id_bind:
  "truthy (map_option callback_query_id (callback_query u)) = callback_query_has_id u"
  by (simp add: callback_query_has_id_def truthy_def split: option.splits)

lemmas has_bind =
  message_has_photo_bind message_has_document_bind message_has_text_bind
  inline_query_has_text_bind callback_query_has_id_bind

lemma classification_writes_table:
  "classification_writes updateTypeMap u =
    (if message_has_photo u then [Photo]
     else if message_has_document u then [Document]
     else if message_has_text u then [Message]
     else if inline_query_has_text u then [Inline]
     else if callback_query_has_id u then [Callback]
     else if business_message_present u then [BusinessMessage]
     else [])"
  by (simp add: updateTypeMap_def has_bind business_message_present_def)

lemma classify_first_match: "classify u = first_matching_kind u"
  by (simp add: classify_def classification_writes_table first_matching_kind_def)

text \<open>
  Claim C2. The kind of a context is the first kind of the ordered list Photo, Document,
  Message, Inline, Callback, BusinessMessage whose predicate holds of the update, or none;
  the loop writes the kind at most once; and an update whose message carries a photo and a
  text is a Photo.
\<close>

theorem classification_first_match:
  "update_type (new_TelegramExecutionContext tok u) = first_matching_kind u
   \<and> length (classification_writes updateTypeMap u) \<le> 1
   \<and> (\<forall>m ph t. message u = Some m \<and> photo m = Some ph \<and> msg_text m = Some t
        \<longrightarrow> update_type (new_TelegramExecutionContext tok u) = Some Photo)"
proof (intro conjI allI impI)
  show kind: "update_type (new_TelegramExecutionContext tok u) = first_matching_kind u"
    by (simp add: new_TelegramExecutionContext_def classify_first_match)
  show "length (classification_writes updateTypeMap u) \<le> 1"
    by (simp add: classification_writes_table)
  fix m ph t
  assume "message u = Some m \<and> photo m = Some ph \<and> msg_text m = Some t"
  then have "message_has_photo u"
    by (simp add: message_has_photo_def)
  then show "update_type (new_TelegramExecutionContext tok u) = Some Photo"
    by (simp add: kind first_matching_kind_def)
qed

theorem classification_first_match_witness:
  "message (photo_message (js ''hello'')) = Some (photo_body (js ''hello''))
   \<and> photo (photo_body (js ''hello'')) = Some [js ''file-1'']
   \<and> msg_text (photo_body (js ''hello'')) = Some (js ''hello'')
   \<and> update_type (new_TelegramExecutionContext (js ''123'') (photo_message (js ''hello''))) = Some Photo"
proof -
  have h: "message (photo_message (js ''hello'')) = Some (photo_body (js ''hello''))
      \<and> photo (photo_body (js ''hello'')) = Some [js ''file-1'']
      \<and> msg_text (photo_body (js ''hello'')) = Some (js ''hello'')"
    by (simp add: photo_message_def photo_body_def text_body_def)
  with classification_first_match [of "js ''123''" "photo_message (js ''hello'')"]
  have "update_type (new_TelegramExecutionContext (js ''123'') (photo_message (js ''hello''))) = Some Photo"
    by blast
  with h show ?thesis
    by blast
qed

section \<open>Command extraction\<close>

lemma split_first: "\<exists>ps. split sep s = takeWhile (\<lambda>c. c \<noteq> sep) s # ps"
  by (induction s) auto

lemma extract_command_slash:
  "extract_command ut u =
    (if ut = Some Message \<or> ut = Some BusinessMessage then slash_command (messageText u) else None)"
proof -
  obtain ps where "split (of_char CHR '' '') (drop 1 (messageText u)) =
      first_space_delimited_token (drop 1 (messageText u)) # ps"
    using split_first [of "(of_char CHR '' '')" "drop 1 (messageText u)"]
    by (auto simp: first_space_delimited_token_def)
  then show ?thesis
    by (simp add: extract_command_def slash_command_def)
qed

lemma messageText_Message:
  assumes "first_matching_kind u = Some Message"
  shows "messageText u = source_text Message u"
proof -
  from assms have "message_has_text u"
    by (simp add: first_matching_kind_def split: if_splits)
  then show ?thesis
    by (auto simp: message_has_text_def messageText_def source_text_def js_or_def truthy_def
        split: option.splits)
qed

lemma messageText_BusinessMessage:
  assumes "first_matching_kind u = Some BusinessMessage"
  shows "messageText u = source_text BusinessMessage u"
proof -
  from assms have "\<not> message_has_text u"
    by (simp add: first_matching_kind_def split: if_splits)
  then show ?thesis
    by (auto simp: message_has_text_def messageText_def source_text_def js_or_def truthy_def
        split: option.splits)
qed

text \<open>
  Claim C5, as the code has it. For the kinds Message and BusinessMessage the command is
  defined exactly when the source text (the message's text, or the business message's,
  default empty) starts with a slash, and it is then the text after the slash up to the
  first space character, unchanged; for every other kind, and for no kind, it is absent.
\<close>

theorem command_extraction:
  "command (new_TelegramExecutionContext tok u) =
    (case update_type (new_TelegramExecutionContext tok u) of
       None \<Rightarrow> None
     | Some k \<Rightarrow>
         if k = Message \<or> k = BusinessMessage then slash_command (source_text k u) else None)"
proof (cases "first_matching_kind u")
  case None
  then show ?thesis
    by (simp add: new_TelegramExecutionContext_def classify_first_match extract_command_slash)
next
  case (Some k)
  then show ?thesis
    using messageText_Message [of u] messageText_BusinessMessage [of u]
    by (auto simp: new_TelegramExecutionContext_def classify_first_match extract_command_slash)
qed

text \<open>The example of the specification: \<^verbatim>\<open>"/start extra args"\<close> gives \<^verbatim>\<open>"start"\<close>.\<close>

theorem command_extraction_witness:
  "update_type (new_TelegramExecutionContext (js ''123'') (text_message (js ''/start extra args''))) = Some Message
   \<and> command (new_TelegramExecutionContext (js ''123'') (text_message (js ''/start extra args''))) = Some (js ''start'')"
  using command_extraction [of "js ''123''" "text_message (js ''/start extra args'')"]
  by (simp add: js_def new_TelegramExecutionContext_def classify_first_match first_matching_kind_def
      message_has_photo_def message_has_document_def message_has_text_def truthy_def
      text_message_def text_body_def slash_command_def source_text_def startsWith_slash_def
      first_space_delimited_token_def)

text \<open>
  The claim as it is written takes the first white-space-delimited token. A line break
  after the command is white space and is not a space: the code keeps it, and what
  follows it, in the command.
\<close>

theorem command_whitespace_counterexample:
  "update_type (new_TelegramExecutionContext (js ''123'')
      (text_message (js ''/start'' @ [0x0A] @ js ''now''))) = Some Message
   \<and> command (new_TelegramExecutionContext (js ''123'')
      (text_message (js ''/start'' @ [0x0A] @ js ''now''))) = Some (js ''start'' @ [0x0A] @ js ''now'')
   \<and> first_whitespace_delimited_token (drop 1 (js ''/start'' @ [0x0A] @ js ''now'')) = js ''start''
   \<and> command (new_TelegramExecutionContext (js ''123'')
      (text_message (js ''/start'' @ [0x0A] @ js ''now'')))
     \<noteq> Some (first_whitespace_delimited_token (drop 1 (js ''/start'' @ [0x0A] @ js ''now'')))"
  by (simp add: js_def new_TelegramExecutionContext_def classify_def updateTypeMap_def truthy_def
      text_message_def text_body_def extract_command_def messageText_def js_or_def startsWith_slash_def
      first_whitespace_delimited_token_def is_whitespace_def)

section \<open>The rate limiter\<close>

lemma rateLimit_cases:
  "rateLimit now wake s =
    (if now > resetTime s then (None, \<lparr>requestCount = 1, resetTime = now + 1000\<rparr>)
     else if requestCount s \<ge> 30
       then (Some (resetTime s - now), \<lparr>requestCount = 1, resetTime = wake + 1000\<rparr>)
     else (None, \<lparr>requestCount = requestCount s + 1, resetTime = resetTime s\<rparr>))"
  by (simp add: rateLimit_def rateLimit_window_def rateLimit_waitTime_def rateLimit_fresh_def
      rateLimit_count_def)

lemma rateLimit_calls_in_window:
  "requestCount s + length cs \<le> 30 \<Longrightarrow> \<forall>c \<in> set cs. fst c \<le> resetTime s \<Longrightarrow>
   rateLimit_calls cs s =
     (replicate (length cs) None, s\<lparr>requestCount := requestCount s + length cs\<rparr>)"
proof (induction cs arbitrary: s)
  case Nil
  then show ?case by simp
next
  case (Cons c cs)
  obtain now wake where c: "c = (now, wake)"
    by (cases c)
  let ?s' = "s\<lparr>requestCount := requestCount s + 1\<rparr>"
  from Cons.prems c have step: "rateLimit now wake s = (None, ?s')"
    by (simp add: rateLimit_cases)
  from Cons.prems have "requestCount ?s' + length cs \<le> 30" "\<forall>c \<in> set cs. fst c \<le> resetTime ?s'"
    by simp_all
  then have "rateLimit_calls cs ?s' =
      (replicate (length cs) None, ?s'\<lparr>requestCount := requestCount ?s' + length cs\<rparr>)"
    by (rule Cons.IH)
  with step c show ?case
    by simp
qed

lemma rateLimit_calls_append:
  "rateLimit_calls (cs @ ds) s =
    (let (ws, s') = rateLimit_calls cs s; (vs, s'') = rateLimit_calls ds s' in (ws @ vs, s''))"
  by (induction cs arbitrary: s) (auto split: prod.splits)

lemma rateLimit_count_le: "requestCount (snd (rateLimit now wake s)) \<le> 30"
  by (simp add: rateLimit_cases)

lemma rateLimit_calls_count_le:
  "requestCount s \<le> 30 \<Longrightarrow> requestCount (snd (rateLimit_calls cs s)) \<le> 30"
proof (induction cs arbitrary: s)
  case Nil
  then show ?case by simp
next
  case (Cons c cs)
  obtain now wake where c: "c = (now, wake)"
    by (cases c)
  have "requestCount (snd (rateLimit now wake s)) \<le> 30"
    by (rule rateLimit_count_le)
  then have "requestCount (snd (rateLimit_calls cs (snd (rateLimit now wake s)))) \<le> 30"
    by (rule Cons.IH)
  then show ?case
    by (simp add: c split_beta)
qed

lemma rateLimit_as_steps:
  "snd (rateLimit now wake s) =
    (case rateLimit_waitTime now (rateLimit_window now s) of
       None \<Rightarrow> limiter_steps [Enters now] s
     | Some t \<Rightarrow> limiter_steps [Enters now, Wakes wake] s)"
  by (simp add: rateLimit_def limiter_steps_def Let_def split: option.splits)

lemma step_limiter_count_le:
  "requestCount s \<le> 30 \<Longrightarrow> requestCount (step_limiter step s) \<le> 30"
  by (cases step)
    (auto simp: rateLimit_window_def rateLimit_waitTime_def rateLimit_count_def
      rateLimit_fresh_def Let_def split: if_splits)

lemma limiter_steps_count_le:
  "requestCount s \<le> 30 \<Longrightarrow> requestCount (limiter_steps steps s) \<le> 30"
  unfolding limiter_steps_def
  by (induction steps arbitrary: s) (simp_all add: step_limiter_count_le)

text \<open>
  Claim C3, as the code has it. A call that enters strictly after the window's end resets
  the state (count 0, end = now + 1000 ms) and is counted, so the count is 1; a call at
  the window's end or before it, with the count at the cap of 30, sleeps until the
  window's end, starts a fresh window at the time it wakes and is counted there; any other
  call is counted and proceeds at once. The count never exceeds 30, along any sequence of
  calls and along any interleaving of the calls' stretches, and after 30 calls in one
  window the 31st call in that window sleeps until the window's end and is counted in the
  next window.
\<close>

theorem rateLimit_fixed_window:
  "rateLimit now wake s =
     (if now > resetTime s then (None, \<lparr>requestCount = 1, resetTime = now + 1000\<rparr>)
      else if requestCount s \<ge> 30
        then (Some (resetTime s - now), \<lparr>requestCount = 1, resetTime = wake + 1000\<rparr>)
      else (None, \<lparr>requestCount = requestCount s + 1, resetTime = resetTime s\<rparr>))
   \<and> (requestCount s \<le> 30 \<longrightarrow> requestCount (snd (rateLimit_calls cs s)) \<le> 30)
   \<and> (requestCount s \<le> 30 \<longrightarrow> requestCount (limiter_steps steps s) \<le> 30)
   \<and> (requestCount s = 0 \<and> length cs = 30 \<and> (\<forall>c \<in> set cs. fst c \<le> resetTime s)
        \<and> now \<le> resetTime s \<longrightarrow>
      rateLimit_calls (cs @ [(now, wake)]) s =
        (replicate 30 None @ [Some (resetTime s - now)],
         \<lparr>requestCount = 1, resetTime = wake + 1000\<rparr>))"
proof (intro conjI impI)
  show "rateLimit now wake s =
     (if now > resetTime s then (None, \<lparr>requestCount = 1, resetTime = now + 1000\<rparr>)
      else if requestCount s \<ge> 30
        then (Some (resetTime s - now), \<lparr>requestCount = 1, resetTime = wake + 1000\<rparr>)
      else (None, \<lparr>requestCount = requestCount s + 1, resetTime = resetTime s\<rparr>))"
    by (rule rateLimit_cases)
  show "requestCount (snd (rateLimit_calls cs s)) \<le> 30" if "requestCount s \<le> 30"
    using that by (rule rateLimit_calls_count_le)
  show "requestCount (limiter_steps steps s) \<le> 30" if "requestCount s \<le> 30"
    using that by (rule limiter_steps_count_le)
  assume h: "requestCount s = 0 \<and> length cs = 30 \<and> (\<forall>c \<in> set cs. fst c \<le> resetTime s)
      \<and> now \<le> resetTime s"
  then have "rateLimit_calls cs s =
      (replicate (length cs) None, s\<lparr>requestCount := requestCount s + length cs\<rparr>)"
    by (intro rateLimit_calls_in_window) simp_all
  with h have first: "rateLimit_calls cs s = (replicate 30 None, s\<lparr>requestCount := 30\<rparr>)"
    by simp
  from h have last: "rateLimit now wake (s\<lparr>requestCount := 30\<rparr>) =
      (Some (resetTime s - now), \<lparr>requestCount = 1, resetTime = wake + 1000\<rparr>)"
    by (simp add: rateLimit_cases)
  show "rateLimit_calls (cs @ [(now, wake)]) s =
        (replicate 30 None @ [Some (resetTime s - now)],
         \<lparr>requestCount = 1, resetTime = wake + 1000\<rparr>)"
    by (simp add: rateLimit_calls_append first last)
qed

theorem rateLimit_fixed_window_witness:
  "requestCount \<lparr>requestCount = 0, resetTime = 1000\<rparr> = 0
   \<and> length (replicate 30 (400::int, 400::int)) = 30
   \<and> rateLimit_calls (replicate 30 (400, 400) @ [(500, 1003)]) \<lparr>requestCount = 0, resetTime = 1000\<rparr>
       = (replicate 30 None @ [Some 500], \<lparr>requestCount = 1, resetTime = 2003\<rparr>)"
  using rateLimit_fixed_window [where now = 500 and wake = 1003
      and s = "\<lparr>requestCount = 0, resetTime = 1000\<rparr>" and cs = "replicate 30 (400, 400)"]
  by simp

text \<open>
  The claim as it is written resets the state at the window's end too. A call that enters
  exactly at the window's end is counted in the old window.
\<close>

theorem rateLimit_boundary_counterexample:
  "rateLimit 1000 1000 \<lparr>requestCount = 5, resetTime = 1000\<rparr>
     = (None, \<lparr>requestCount = 6, resetTime = 1000\<rparr>)
   \<and> snd (rateLimit 1000 1000 \<lparr>requestCount = 5, resetTime = 1000\<rparr>)
     \<noteq> \<lparr>requestCount = 0, resetTime = 1000 + 1000\<rparr>
   \<and> snd (rateLimit 1000 1000 \<lparr>requestCount = 5, resetTime = 1000\<rparr>)
     \<noteq> \<lparr>requestCount = 1, resetTime = 1000 + 1000\<rparr>"
  by (simp add: rateLimit_def rateLimit_window_def rateLimit_waitTime_def rateLimit_count_def)

section \<open>Dispatch\<close>

lemma invoked_invoke: "invoked (fst (invoke ref h ctx w)) = [ref]"
  by (simp add: invoke_def split: prod.splits sum.splits)

lemma command_member_Own:
  "command ctx = Some c \<Longrightarrow> c \<noteq> [] \<Longrightarrow> commands this c = Some h \<Longrightarrow>
   command_member this ctx = Some (c, Own h)"
  by (simp add: command_member_def get_member_def)

lemma command_member_None:
  "names_no_member this (command ctx) \<Longrightarrow> command_member this ctx = None"
  by (auto simp: command_member_def get_member_def names_no_member_def split: option.splits)

lemma handle_post:
  assumes "pathname request = js ''/'' @ token this" "request_method request = js ''POST''"
    "json_body request = Some u" "update_type (new_TelegramExecutionContext (token this) u) = Some k"
  shows "handle webhook_set this request w =
    (case command_member this (new_TelegramExecutionContext (token this) u) of
       Some (c, Own h) \<Rightarrow> invoke (CommandHandler c) h (new_TelegramExecutionContext (token this) u) w
     | Some (c, Inherited name) \<Rightarrow>
         (\<lparr>returned = Outcome_of_inherited_member name, invoked = [], body_read = True\<rparr>, w)
     | None \<Rightarrow>
         (case events this k of
            Some g \<Rightarrow> invoke (EventHandler k) g (new_TelegramExecutionContext (token this) u) w
          | None \<Rightarrow>
              (\<lparr>returned = Returned \<lparr>status = 400, body = js ''No handler for this update type''\<rparr>,
                invoked = [], body_read = True\<rparr>, w)))"
  using assms by (simp add: handle_def Let_def)

text \<open>
  Claim C1, as the code has it. For a POST request to the token path whose body
  classifies to a kind: if the extracted command is not empty and a command handler is
  registered under it, that handler and no other is invoked and its response returned;
  if the command is absent, empty, or neither registered nor the name of a member the
  registry object inherits, the handler registered for the kind, if there is one, and no
  other is invoked; and if there is none the response is a client error and no handler is
  invoked. A body that classifies to no kind gets a client error and no handler is invoked.
\<close>

theorem handle_dispatch_precedence:
  assumes path: "pathname request = js ''/'' @ token this"
    and post: "request_method request = js ''POST''"
    and body: "json_body request = Some u"
    and ctx: "ctx = new_TelegramExecutionContext (token this) u"
  shows
    "(\<forall>k c h. update_type ctx = Some k \<and> command ctx = Some c \<and> c \<noteq> [] \<and> commands this c = Some h
        \<longrightarrow> handle webhook_set this request w = invoke (CommandHandler c) h ctx w
          \<and> invoked (fst (handle webhook_set this request w)) = [CommandHandler c])
     \<and> (\<forall>k g. update_type ctx = Some k \<and> names_no_member this (command ctx) \<and> events this k = Some g
        \<longrightarrow> handle webhook_set this request w = invoke (EventHandler k) g ctx w
          \<and> invoked (fst (handle webhook_set this request w)) = [EventHandler k])
     \<and> (\<forall>k. update_type ctx = Some k \<and> names_no_member this (command ctx) \<and> events this k = None
        \<longrightarrow> client_error (returned (fst (handle webhook_set this request w)))
          \<and> invoked (fst (handle webhook_set this request w)) = []
          \<and> snd (handle webhook_set this request w) = w)
     \<and> (update_type ctx = None
        \<longrightarrow> client_error (returned (fst (handle webhook_set this request w)))
          \<and> invoked (fst (handle webhook_set this request w)) = []
          \<and> snd (handle webhook_set this request w) = w)"
proof (intro conjI allI impI)
  fix k c h
  assume a: "update_type ctx = Some k \<and> command ctx = Some c \<and> c \<noteq> [] \<and> commands this c = Some h"
  then have "command_member this ctx = Some (c, Own h)"
    by (simp add: command_member_Own)
  with a show run: "handle webhook_set this request w = invoke (CommandHandler c) h ctx w"
    using handle_post [OF path post body, of k webhook_set w] by (simp add: ctx)
  show "invoked (fst (handle webhook_set this request w)) = [CommandHandler c]"
    by (simp add: run invoked_invoke)
next
  fix k g
  assume a: "update_type ctx = Some k \<and> names_no_member this (command ctx) \<and> events this k = Some g"
  then have "command_member this ctx = None"
    by (simp add: command_member_None)
  with a show run: "handle webhook_set this request w = invoke (EventHandler k) g ctx w"
    using handle_post [OF path post body, of k webhook_set w] by (simp add: ctx)
  show "invoked (fst (handle webhook_set this request w)) = [EventHandler k]"
    by (simp add: run invoked_invoke)
next
  fix k
  assume a: "update_type ctx = Some k \<and> names_no_member this (command ctx) \<and> events this k = None"
  then have "command_member this ctx = None"
    by (simp add: command_member_None)
  with a have run: "handle webhook_set this request w =
      (\<lparr>returned = Returned \<lparr>status = 400, body = js ''No handler for this update type''\<rparr>,
        invoked = [], body_read = True\<rparr>, w)"
    using handle_post [OF path post body, of k webhook_set w] by (simp add: ctx)
  show "client_error (returned (fst (handle webhook_set this request w)))"
    "invoked (fst (handle webhook_set this request w)) = []"
    "snd (handle webhook_set this request w) = w"
    by (simp_all add: run client_error_def)
next
  assume a: "update_type ctx = None"
  then have run: "handle webhook_set this request w =
      (\<lparr>returned = Returned \<lparr>status = 400, body = js ''Unhandled update type''\<rparr>,
        invoked = [], body_read = True\<rparr>, w)"
    using path post body by (simp add: handle_def Let_def ctx)
  show "client_error (returned (fst (handle webhook_set this request w)))"
    "invoked (fst (handle webhook_set this request w)) = []"
    "snd (handle webhook_set this request w) = w"
    by (simp_all add: run client_error_def)
qed

text \<open>
  The example of the specification: with a command handler for \<^verbatim>\<open>start\<close> and a
  handler for the kind Message, the message \<^verbatim>\<open>/start\<close> invokes the command
  handler only.
\<close>

lemma start_ctx:
  "update_type (new_TelegramExecutionContext (js ''123'') (text_message (js ''/start''))) = Some Message"
  "command (new_TelegramExecutionContext (js ''123'') (text_message (js ''/start''))) = Some (js ''start'')"
  by (simp_all add: js_def new_TelegramExecutionContext_def classify_def updateTypeMap_def truthy_def
      text_message_def text_body_def extract_command_def messageText_def js_or_def
      startsWith_slash_def)

theorem handle_dispatch_precedence_witness:
  "pathname (post_update (text_message (js ''/start''))) = js ''/'' @ token start_bot
   \<and> request_method (post_update (text_message (js ''/start''))) = js ''POST''
   \<and> commands start_bot (js ''start'') = Some command_reply
   \<and> events start_bot Message = Some event_reply
   \<and> invoked (fst (handle (resolve ok_response) start_bot (post_update (text_message (js ''/start'')))
        initial_world)) = [CommandHandler (js ''start'')]
   \<and> returned (fst (handle (resolve ok_response) start_bot (post_update (text_message (js ''/start'')))
        initial_world)) = Returned \<lparr>status = 200, body = js ''command''\<rparr>"
proof -
  let ?ctx = "new_TelegramExecutionContext (token start_bot) (text_message (js ''/start''))"
  have path: "pathname (post_update (text_message (js ''/start''))) = js ''/'' @ token start_bot"
    and post: "request_method (post_update (text_message (js ''/start''))) = js ''POST''"
    and body: "json_body (post_update (text_message (js ''/start''))) = Some (text_message (js ''/start''))"
    and reg: "commands start_bot (js ''start'') = Some command_reply"
      "events start_bot Message = Some event_reply"
    by (simp_all add: js_def post_update_def start_bot_def)
  have c: "update_type ?ctx = Some Message \<and> command ?ctx = Some (js ''start'') \<and> js ''start'' \<noteq> []
      \<and> commands start_bot (js ''start'') = Some command_reply"
    using start_ctx reg by (simp add: start_bot_def)
  from handle_dispatch_precedence [OF path post body refl, of "resolve ok_response" initial_world] c
  have run: "handle (resolve ok_response) start_bot (post_update (text_message (js ''/start'')))
        initial_world = invoke (CommandHandler (js ''start'')) command_reply ?ctx initial_world
      \<and> invoked (fst (handle (resolve ok_response) start_bot
          (post_update (text_message (js ''/start''))) initial_world)) = [CommandHandler (js ''start'')]"
    by blast
  then have ret: "returned (fst (handle (resolve ok_response) start_bot
        (post_update (text_message (js ''/start''))) initial_world))
      = Returned \<lparr>status = 200, body = js ''command''\<rparr>"
    by (simp add: invoke_def command_reply_def resolve_def)
  from run have inv: "invoked (fst (handle (resolve ok_response) start_bot
        (post_update (text_message (js ''/start''))) initial_world)) = [CommandHandler (js ''start'')]"
    by blast
  from path post reg inv ret show ?thesis
    by blast
qed

text \<open>
  The claim as it is written runs the command handler whenever a command was extracted
  and a handler is registered under it. The message \<^verbatim>\<open>/\<close> has the empty
  command, which the test \<^verbatim>\<open>ctx.command && ...\<close> takes for no command: a
  handler registered under the empty name is passed over for the kind's handler.
\<close>

lemma slash_ctx:
  "update_type (new_TelegramExecutionContext (js ''123'') (text_message (js ''/''))) = Some Message"
  "command (new_TelegramExecutionContext (js ''123'') (text_message (js ''/''))) = Some []"
  by (simp_all add: js_def new_TelegramExecutionContext_def classify_def updateTypeMap_def truthy_def
      text_message_def text_body_def extract_command_def messageText_def js_or_def
      startsWith_slash_def)

theorem handle_empty_command_counterexample:
  "update_type (new_TelegramExecutionContext (token empty_name_bot) (text_message (js ''/''))) = Some Message
   \<and> command (new_TelegramExecutionContext (token empty_name_bot) (text_message (js ''/''))) = Some []
   \<and> commands empty_name_bot [] = Some command_reply
   \<and> invoked (fst (handle (resolve ok_response) empty_name_bot (post_update (text_message (js ''/'')))
        initial_world)) = [EventHandler Message]
   \<and> returned (fst (handle (resolve ok_response) empty_name_bot (post_update (text_message (js ''/'')))
        initial_world)) = Returned \<lparr>status = 200, body = js ''event''\<rparr>"
  using slash_ctx
  by (simp add: js_def handle_def Let_def empty_name_bot_def post_update_def command_member_def
      invoke_def event_reply_def resolve_def)

text \<open>
  A command that names an inherited member of the registry object: with no handler
  registered under \<^verbatim>\<open>constructor\<close>, the message \<^verbatim>\<open>/constructor\<close> reaches
  neither the kind's handler nor the client error.
\<close>

lemma constructor_ctx:
  "update_type (new_TelegramExecutionContext (js ''123'') (text_message (js ''/constructor''))) = Some Message"
  "command (new_TelegramExecutionContext (js ''123'') (text_message (js ''/constructor''))) = Some (js ''constructor'')"
  by (simp_all add: js_def new_TelegramExecutionContext_def classify_def updateTypeMap_def truthy_def
      text_message_def text_body_def extract_command_def messageText_def js_or_def
      startsWith_slash_def)

lemma handle_inherited_member_example:
  "commands start_bot (js ''constructor'') = None
   \<and> handle (resolve ok_response) start_bot (post_update (text_message (js ''/constructor'')))
        initial_world
      = (\<lparr>returned = Outcome_of_inherited_member (js ''constructor''), invoked = [],
          body_read = True\<rparr>, initial_world)"
  using constructor_ctx
  by (simp add: js_def handle_def Let_def start_bot_def post_update_def command_member_def
      get_member_def Object_prototype_members_def)

text \<open>
  Claim C9. A request whose path is not the slash followed by the token gets the
  response \<^verbatim>\<open>ok\<close> with status 200; no handler is invoked, the body is not read
  and the world is left as it was.
\<close>

theorem handle_wrong_path:
  "pathname request \<noteq> js ''/'' @ token this \<Longrightarrow>
   handle webhook_set this request w =
     (\<lparr>returned = Returned \<lparr>status = 200, body = js ''ok''\<rparr>, invoked = [], body_read = False\<rparr>, w)"
  by (auto simp: handle_def ok_response_def)

theorem handle_wrong_path_witness:
  "pathname (post_update (text_message (js ''/start''))\<lparr>pathname := js ''/other''\<rparr>) \<noteq> js ''/'' @ token start_bot
   \<and> handle (resolve ok_response) start_bot
        (post_update (text_message (js ''/start''))\<lparr>pathname := js ''/other''\<rparr>) initial_world =
     (\<lparr>returned = Returned \<lparr>status = 200, body = js ''ok''\<rparr>, invoked = [], body_read = False\<rparr>,
      initial_world)"
proof -
  have h: "pathname (post_update (text_message (js ''/start''))\<lparr>pathname := js ''/other''\<rparr>)
      \<noteq> js ''/'' @ token start_bot"
    by (simp add: js_def post_update_def start_bot_def)
  from handle_wrong_path [OF h] h show ?thesis
    by blast
qed

section \<open>Replies\<close>


lemma await_rateLimit_io: "await (rateLimit_io env) f w = f () (snd (rateLimit_io env w))"
  by (simp add: await_def rateLimit_io_def split_beta)



lemma toString_cases: "toString v = Inl e \<Longrightarrow> v = Undefined"
  by (cases v) simp_all

















lemma document_caption_not_empty: "document_caption \<noteq> []"
  by (simp add: document_caption_def)







lemma hi_ctx_record:
  "new_TelegramExecutionContext (js ''123'') (text_message (js ''hi'')) =
    \<lparr>bot_token = js ''123'', update = text_message (js ''hi''), update_type = Some Message,
      command = None\<rparr>"
  by (simp add: js_def new_TelegramExecutionContext_def classify_def updateTypeMap_def truthy_def
      text_message_def text_body_def extract_command_def messageText_def js_or_def
      startsWith_slash_def)




text \<open>With a parse mode the document goes out: the request in full.\<close>

lemma reply_long_text_through_client_example:
  "trace (snd (reply (TelegramApi online (js ''123''))
      (new_TelegramExecutionContext (js ''123'') (text_message (js ''hi'')))
      (replicate 5000 (of_char CHR ''a'')) (Some (js ''HTML'')) [] initial_world))
    = [Fetch \<lparr>http_method = js ''POST'', url = js ''https://api.telegram.org/bot123/sendDocument'',
         http_body = FormData
           [(js ''chat_id'', Field (js ''42'')),
            (js ''document'', File (replicate 5000 (of_char CHR ''a'')) (js ''document.txt'')),
            (js ''caption'', Field document_caption),
            (js ''reply_to_message_id'', Field (js ''7'')),
            (js ''parse_mode'', Field (js ''HTML''))]\<rparr>]"
  by (simp only: hi_ctx_record)
    (simp add: js_def document_caption_not_empty reply_def reply_as_document_def
      documentOptions_def commonOptions_def
      call_def TelegramApi_def sendDocument_def named_keys_def optional_field_def
      as_form_string_def apiUrl_def await_def try_catch_def fetch_def json_def emit_def
      reject_def resolve_def handleApiResponse_def assign_def getChatId_def
      getReplyToMessageId_def optional_def createTextDocument_def MAX_MESSAGE_LENGTH_def
      text_message_def text_body_def online_def initial_world_def)

text \<open>
  Claim C6 says that no failure of a reply operation reaches its caller and that every
  response's success flag is checked. For a message, \<^verbatim>\<open>replyPhoto\<close> awaits
  \<^verbatim>\<open>sendPhoto\<close> outside any \<^verbatim>\<open>try\<close> and drops the response: without a
  network the client's error is thrown to the caller, and a refusal of the platform is
  not logged by the context. So do \<^verbatim>\<open>replyVideo\<close> and \<^verbatim>\<open>sendTyping\<close>.
  Next to them \<^verbatim>\<open>reply\<close>, which catches and logs.
\<close>

theorem replyPhoto_failure_escapes:
  "update_type (new_TelegramExecutionContext (js ''123'') (text_message (js ''hi''))) = Some Message
   \<and> fst (replyPhoto (TelegramApi offline (js ''123''))
        (new_TelegramExecutionContext (js ''123'') (text_message (js ''hi''))) (js ''photo-1'') (js ''a photo'') []
        initial_world) = Inl NetworkError
   \<and> trace (snd (replyPhoto (TelegramApi refusing (js ''123''))
        (new_TelegramExecutionContext (js ''123'') (text_message (js ''hi''))) (js ''photo-1'') (js ''a photo'') []
        initial_world))
      = [RateLimit None,
         Fetch \<lparr>http_method = js ''POST'', url = js ''https://api.telegram.org/bot123/sendPhoto'',
           http_body = JsonBody [(js ''chat_id'', Str (js ''42'')), (js ''reply_to_message_id'', Str (js ''7'')),
             (js ''photo'', Str (js ''photo-1'')), (js ''caption'', Str (js ''a photo''))]\<rparr>]
   \<and> fst (replyVideo (TelegramApi offline (js ''123''))
        (new_TelegramExecutionContext (js ''123'') (text_message (js ''hi''))) (js ''video-1'') []
        initial_world) = Inl NetworkError
   \<and> fst (sendTyping (TelegramApi offline (js ''123''))
        (new_TelegramExecutionContext (js ''123'') (text_message (js ''hi''))) initial_world)
      = Inl NetworkError
   \<and> reply (TelegramApi offline (js ''123''))
        (new_TelegramExecutionContext (js ''123'') (text_message (js ''hi''))) (js ''hello'') None []
        initial_world
      = (Inr (), initial_world\<lparr>limiter := \<lparr>requestCount = 1, resetTime = 1000\<rparr>,
          clock_reads := 1,
          trace := [RateLimit None,
            Fetch \<lparr>http_method = js ''POST'', url = js ''https://api.telegram.org/bot123/sendMessage'',
              http_body = JsonBody [(js ''chat_id'', Str (js ''42'')), (js ''reply_to_message_id'', Str (js ''7'')),
                (js ''parse_mode'', Undefined), (js ''text'', Str (js ''hello''))]\<rparr>,
            ConsoleError (js ''Error in POST sendMessage''),
            ConsoleError (js ''Exception in sendMessage'')],
          calls := [(SendMessage, [(js ''chat_id'', Str (js ''42'')), (js ''reply_to_message_id'', Str (js ''7'')),
                (js ''parse_mode'', Undefined), (js ''text'', Str (js ''hello''))])]\<rparr>)"
  by (simp only: hi_ctx_record)
    (simp add: js_def replyPhoto_def replyVideo_def sendTyping_def reply_def ctx_sendMessage_def
      commonOptions_def call_def TelegramApi_def sendPhoto_def sendVideo_def
      sendChatAction_def sendMessage_def post_def apiUrl_def await_def try_catch_def
      fetch_def json_def emit_def reject_def resolve_def rateLimit_io_def rateLimit_cases
      handleApiResponse_def assign_def getChatId_def getReplyToMessageId_def optional_def
      MAX_MESSAGE_LENGTH_def text_message_def text_body_def offline_def refusing_def
      initial_world_def)

section \<open>The client and the limiter\<close>

text \<open>
  Claim C7 says that every operation passes the limiter before its request. With a
  \<^verbatim>\<open>Blob\<close>, \<^verbatim>\<open>sendDocument\<close> issues its request itself and never enters
  the limiter; with a file id it goes through \<^verbatim>\<open>post\<close> and enters it once.
\<close>

theorem sendDocument_blob_ungated:
  "sendDocument online (js ''123'')
      [(js ''chat_id'', Str (js ''42'')), (js ''document'', Blob (js ''hello'')), (js ''caption'', Str (js ''a file''))]
      initial_world
    = (Inr \<lparr>ok = True, result_file_path = js ''documents/file_1.txt'', description = None\<rparr>,
       initial_world\<lparr>trace :=
         [Fetch \<lparr>http_method = js ''POST'', url = js ''https://api.telegram.org/bot123/sendDocument'',
            http_body = FormData [(js ''chat_id'', Field (js ''42'')),
              (js ''document'', File (js ''hello'') (js ''document.txt'')), (js ''caption'', Field (js ''a file''))]\<rparr>]\<rparr>)
   \<and> limiter_entries (trace (snd (sendDocument online (js ''123'')
        [(js ''chat_id'', Str (js ''42'')), (js ''document'', Blob (js ''hello'')), (js ''caption'', Str (js ''a file''))]
        initial_world))) = 0
   \<and> limiter_entries (trace (snd (sendDocument online (js ''123'')
        [(js ''chat_id'', Str (js ''42'')), (js ''document'', Str (js ''file-1'')), (js ''caption'', Str (js ''a file''))]
        initial_world))) = 1"
  by (simp add: js_def sendDocument_def named_keys_def optional_field_def as_form_string_def post_def
      apiUrl_def await_def try_catch_def fetch_def json_def emit_def reject_def resolve_def
      rateLimit_io_def rateLimit_cases online_def initial_world_def limiter_entries_def)

text \<open>
  Claim C8 says that \<^verbatim>\<open>getFile(file_id)\<close> of the context resolves the file id
  in two steps. On the client of this repository it never does: the context passes the
  string where the client reads \<^verbatim>\<open>params.file_id\<close>, so for every file id the
  client answers 400, \<^verbatim>\<open>file_id is required\<close>, after one entry of the limiter
  and without any request. And the client itself, given the object it expects, throws
  when the first request fails in transport.
\<close>

theorem ctx_getFile_bare_string:
  "ctx_getFile (TelegramApi env tok) ctx fid w =
     (Inr \<lparr>status = 400, body = js ''file_id is required''\<rparr>, snd (rateLimit_io env w))
   \<and> trace (snd (ctx_getFile (TelegramApi env tok) ctx fid w))
       = trace w @ [RateLimit (fst (rateLimit (clock env (clock_reads w))
            (clock env (Suc (clock_reads w))) (limiter w)))]
   \<and> fst (getFile offline (js ''123'') (GetFileParams (Some (js ''abc''))) (js ''123'') initial_world)
       = Inl NetworkError"
  by (simp add: js_def ctx_getFile_def TelegramApi_def getFile_def get_def await_def try_catch_def
      fetch_def emit_def reject_def rateLimit_io_def js_or_def truthy_def resolve_def
      split_beta offline_def)

lemma budget_rateLimit_io: "budget (snd (rateLimit_io env w)) = enter env (budget w)"
  by (simp add: budget_def enter_def rateLimit_io_def limiter_entries_def sleeps_def split_beta
      split: option.splits)

lemma budget_append:
  "limiter_entries [e] = 0 \<Longrightarrow> budget (w\<lparr>trace := trace w @ [e]\<rparr>) = budget w"
  by (simp add: budget_def limiter_entries_def sleeps_def split: event.splits if_splits)

lemma budget_fetch: "budget (snd (fetch env r w)) = budget w"
  by (simp add: fetch_def budget_append limiter_entries_def)

lemma budget_emit_error: "budget (snd (emit (ConsoleError x) w)) = budget w"
  by (simp add: emit_def budget_append limiter_entries_def)

lemma budget_request:
  "budget (snd (try_catch (await (fetch env r) json)
      (\<lambda>error. await (emit (ConsoleError x)) (\<lambda>_. reject error)) w)) = budget w"
  using budget_fetch [of env r w] budget_emit_error [of x "snd (fetch env r w)"]
  by (cases "fetch env r w")
    (auto simp: try_catch_def await_def json_def reject_def resolve_def
      split: sum.splits option.splits prod.splits)

lemma budget_post: "budget (snd (post env tok e p w)) = enter env (budget w)"
  by (simp add: post_def await_rateLimit_io budget_request budget_rateLimit_io)

lemma budget_get: "budget (snd (get env tok e q w)) = enter env (budget w)"
  by (simp add: get_def await_rateLimit_io budget_request budget_rateLimit_io)

lemma budget_setMyCommands:
  "budget (snd (setMyCommands env tok cs w)) = enter env (enter env (budget w))"
  by (simp add: setMyCommands_def await_rateLimit_io budget_post budget_rateLimit_io)

lemma budget_fetch_resolve:
  "budget (snd (await (fetch env r) (\<lambda>response. resolve (g response)) w)) = budget w"
  by (simp add: await_def fetch_def resolve_def budget_append limiter_entries_def
      split: http_reply.splits)

lemma budget_emit_resolve:
  "budget (snd (await (emit (ConsoleError x)) (\<lambda>_. resolve y) w)) = budget w"
  by (simp add: await_def emit_def resolve_def budget_append limiter_entries_def)

lemma budget_getFile:
  assumes "fid \<noteq> []"
  shows "budget (snd (getFile env tok (GetFileParams (Some fid)) file_token w))
    = enter env (enter env (budget w))"
proof -
  let ?w1 = "snd (rateLimit_io env w)"
  let ?g = "get env tok (js ''getFile'') (js ''file_id='' @ fid) ?w1"
  have g: "budget (snd ?g) = enter env (enter env (budget w))"
    by (simp add: budget_get budget_rateLimit_io)
  have split: "getFile env tok (GetFileParams (Some fid)) file_token w =
      (case ?g of
         (Inl e, w') \<Rightarrow> (Inl e, w')
       | (Inr data, w') \<Rightarrow>
           (if ok data then
              await (fetch env \<lparr>http_method = js ''GET'',
                        url = js ''https://api.telegram.org/file/bot'' @ file_token @ js ''/''
                          @ result_file_path data,
                        http_body = NoBody\<rparr>)
                (\<lambda>response. resolve (fst response))
            else
              await (emit (ConsoleError (js ''Error in getFile''))) (\<lambda>_.
                resolve \<lparr>status = 400,
                  body = js ''Error: ''
                    @ (case description data of None \<Rightarrow> js ''undefined'' | Some d \<Rightarrow> d)\<rparr>)) w')"
    using assms
    by (simp add: getFile_def await_rateLimit_io js_or_def truthy_def)
      (simp add: await_def split: prod.splits sum.splits)
  show ?thesis
  proof (cases ?g)
    case (Pair r w')
    with g have w': "budget w' = enter env (enter env (budget w))"
      by simp
    show ?thesis
    proof (cases r)
      case (Inl e)
      with Pair w' show ?thesis
        by (simp add: split)
    next
      case (Inr data)
      with Pair w' show ?thesis
        by (simp add: split budget_fetch_resolve budget_emit_resolve)
    qed
  qed
qed

lemma budget_run_call:
  "reaches_helper c \<Longrightarrow> budget (run_call env tok c w) = enter env (enter env (budget w))"
  by (cases c) (simp_all add: budget_setMyCommands budget_getFile)

lemma enter_in_window:
  "requestCount l < 30 \<Longrightarrow> clock env r \<le> resetTime l \<Longrightarrow>
   enter env (l, r, e, s) = (l\<lparr>requestCount := Suc (requestCount l)\<rparr>, Suc r, Suc e, s)"
  by (simp add: enter_def rateLimit_cases)

lemma enter_at_cap:
  "requestCount l \<ge> 30 \<Longrightarrow> clock env r \<le> resetTime l \<Longrightarrow>
   snd (snd (snd (enter env (l, r, e, s)))) = Suc s"
  by (simp add: enter_def rateLimit_cases)

lemma enter_sleeps_mono: "snd (snd (snd b)) \<le> snd (snd (snd (enter env b)))"
  by (cases b) (simp add: enter_def split: prod.splits option.splits)

lemma entries_enter: "fst (snd (snd (enter env b))) = Suc (fst (snd (snd b)))"
  by (cases b) (simp add: enter_def split: prod.splits option.splits)

lemma two_entries_in_window:
  assumes "requestCount l + 2 \<le> 30" "\<forall>n. clock env n \<le> resetTime l"
  shows "enter env (enter env (l, r, e, s))
    = (l\<lparr>requestCount := requestCount l + 2\<rparr>, r + 2, e + 2, s)"
  using assms by (simp add: enter_in_window)

lemma run_calls_in_window:
  assumes "\<forall>n. clock env n \<le> resetTime (limiter w)"
    and "requestCount (limiter w) + 2 * length cs \<le> 30"
    and "\<forall>c \<in> set cs. reaches_helper c"
  shows "budget (run_calls env tok cs w) =
    ((limiter w)\<lparr>requestCount := requestCount (limiter w) + 2 * length cs\<rparr>,
     clock_reads w + 2 * length cs, limiter_entries (trace w) + 2 * length cs,
     sleeps (trace w))"
  using assms
proof (induction cs arbitrary: w)
  case Nil
  then show ?case
    by (simp add: run_calls_def budget_def)
next
  case (Cons c cs)
  let ?w' = "run_call env tok c w"
  from Cons.prems have "budget ?w' = enter env (enter env (budget w))"
    by (simp add: budget_run_call)
  also from Cons.prems have "\<dots> = ((limiter w)\<lparr>requestCount := requestCount (limiter w) + 2\<rparr>,
      clock_reads w + 2, limiter_entries (trace w) + 2, sleeps (trace w))"
    by (simp add: budget_def two_entries_in_window)
  finally have b: "budget ?w' = ((limiter w)\<lparr>requestCount := requestCount (limiter w) + 2\<rparr>,
      clock_reads w + 2, limiter_entries (trace w) + 2, sleeps (trace w))" .
  then have l: "limiter ?w' = (limiter w)\<lparr>requestCount := requestCount (limiter w) + 2\<rparr>"
    and rest: "clock_reads ?w' = clock_reads w + 2"
      "limiter_entries (trace ?w') = limiter_entries (trace w) + 2"
      "sleeps (trace ?w') = sleeps (trace w)"
    by (simp_all add: budget_def)
  from Cons.prems l have "budget (run_calls env tok cs ?w') =
    ((limiter ?w')\<lparr>requestCount := requestCount (limiter ?w') + 2 * length cs\<rparr>,
     clock_reads ?w' + 2 * length cs, limiter_entries (trace ?w') + 2 * length cs,
     sleeps (trace ?w'))"
    by (intro Cons.IH) simp_all
  with l rest show ?case
    by (simp add: run_calls_def)
qed

lemma getFile_without_file_id:
  "js_or (file_id params) None = None \<Longrightarrow>
    getFile env tok params file_token w
      = (Inr \<lparr>status = 400, body = js ''file_id is required''\<rparr>, snd (rateLimit_io env w))"
  by (simp add: getFile_def await_rateLimit_io resolve_def)

lemma entries_rateLimit_io:
  "limiter_entries (trace (snd (rateLimit_io env w))) = limiter_entries (trace w) + 1"
  by (simp add: rateLimit_io_def limiter_entries_def split: prod.splits)

text \<open>
  Claim C10, as the code has it. Every call of \<^verbatim>\<open>setMyCommands\<close>, and every
  call of \<^verbatim>\<open>getFile\<close> with a file id that is not empty, enters the limiter
  twice. Every call of \<^verbatim>\<open>getFile\<close> with an empty file id, or with none,
  answers 400 after one entry of the limiter. So in a fresh window fifteen calls of the
  first sort, all within the window, bring the count to 30 without a sleep, and a
  sixteenth such call in that window sleeps.
\<close>

theorem two_units_per_call:
  "limiter_entries (trace (snd (setMyCommands env tok cmds w))) = limiter_entries (trace w) + 2
   \<and> (fid \<noteq> [] \<longrightarrow>
        limiter_entries (trace (snd (getFile env tok (GetFileParams (Some fid)) file_token w)))
          = limiter_entries (trace w) + 2)
   \<and> getFile env tok (GetFileParams (Some [])) file_token w
        = (Inr \<lparr>status = 400, body = js ''file_id is required''\<rparr>, snd (rateLimit_io env w))
   \<and> limiter_entries (trace (snd (getFile env tok (GetFileParams (Some [])) file_token w)))
        = limiter_entries (trace w) + 1
   \<and> getFile env tok (GetFileParams None) file_token w
        = (Inr \<lparr>status = 400, body = js ''file_id is required''\<rparr>, snd (rateLimit_io env w))
   \<and> limiter_entries (trace (snd (getFile env tok (GetFileParams None) file_token w)))
        = limiter_entries (trace w) + 1
   \<and> (requestCount (limiter w) = 0 \<and> (\<forall>n. clock env n \<le> resetTime (limiter w))
        \<and> length cs = 15 \<and> (\<forall>c \<in> set cs. reaches_helper c) \<longrightarrow>
        requestCount (limiter (run_calls env tok cs w)) = 30
        \<and> sleeps (trace (run_calls env tok cs w)) = sleeps (trace w)
        \<and> (\<forall>c. reaches_helper c \<longrightarrow>
              sleeps (trace (run_call env tok c (run_calls env tok cs w))) > sleeps (trace w)))"
proof (intro conjI impI allI)
  have empty: "js_or (file_id (GetFileParams (Some []))) None = None"
    and missing: "js_or (file_id (GetFileParams None)) None = None"
    by (simp_all add: js_or_def truthy_def)
  show "getFile env tok (GetFileParams (Some [])) file_token w
      = (Inr \<lparr>status = 400, body = js ''file_id is required''\<rparr>, snd (rateLimit_io env w))"
    by (rule getFile_without_file_id [OF empty])
  show "limiter_entries (trace (snd (getFile env tok (GetFileParams (Some [])) file_token w)))
      = limiter_entries (trace w) + 1"
    by (simp only: getFile_without_file_id [OF empty] snd_conv entries_rateLimit_io)
  show "getFile env tok (GetFileParams None) file_token w
      = (Inr \<lparr>status = 400, body = js ''file_id is required''\<rparr>, snd (rateLimit_io env w))"
    by (rule getFile_without_file_id [OF missing])
  show "limiter_entries (trace (snd (getFile env tok (GetFileParams None) file_token w)))
      = limiter_entries (trace w) + 1"
    by (simp only: getFile_without_file_id [OF missing] snd_conv entries_rateLimit_io)
next
  have "fst (snd (snd (budget (snd (setMyCommands env tok cmds w)))))
      = Suc (Suc (fst (snd (snd (budget w)))))"
    by (simp add: budget_setMyCommands entries_enter)
  then show "limiter_entries (trace (snd (setMyCommands env tok cmds w)))
      = limiter_entries (trace w) + 2"
    by (simp add: budget_def)
next
  assume "fid \<noteq> []"
  then have "fst (snd (snd (budget (snd (getFile env tok (GetFileParams (Some fid)) file_token w)))))
      = Suc (Suc (fst (snd (snd (budget w)))))"
    by (simp add: budget_getFile entries_enter)
  then show "limiter_entries (trace (snd (getFile env tok (GetFileParams (Some fid)) file_token w)))
      = limiter_entries (trace w) + 2"
    by (simp add: budget_def)
next
  assume h: "requestCount (limiter w) = 0 \<and> (\<forall>n. clock env n \<le> resetTime (limiter w))
        \<and> length cs = 15 \<and> (\<forall>c \<in> set cs. reaches_helper c)"
  let ?w' = "run_calls env tok cs w"
  from h have b: "budget ?w' =
    ((limiter w)\<lparr>requestCount := requestCount (limiter w) + 2 * length cs\<rparr>,
     clock_reads w + 2 * length cs, limiter_entries (trace w) + 2 * length cs,
     sleeps (trace w))"
    by (intro run_calls_in_window) simp_all
  with h show full: "requestCount (limiter ?w') = 30"
    and quiet: "sleeps (trace ?w') = sleeps (trace w)"
    by (simp_all add: budget_def)
  fix c
  assume c: "reaches_helper c"
  from b h have l: "resetTime (limiter ?w') = resetTime (limiter w)"
    by (simp add: budget_def)
  have "Suc (sleeps (trace ?w')) = snd (snd (snd (enter env (budget ?w'))))"
    using full l h by (simp add: budget_def enter_at_cap)
  also have "\<dots> \<le> snd (snd (snd (enter env (enter env (budget ?w')))))"
    by (rule enter_sleeps_mono)
  also have "\<dots> = snd (snd (snd (budget (run_call env tok c ?w'))))"
    by (simp only: budget_run_call [OF c])
  also have "\<dots> = sleeps (trace (run_call env tok c ?w'))"
    by (simp add: budget_def)
  finally have "Suc (sleeps (trace ?w')) \<le> sleeps (trace (run_call env tok c ?w'))" .
  with quiet show "sleeps (trace (run_call env tok c ?w')) > sleeps (trace w)"
    by simp
qed

theorem two_units_per_call_witness:
  "js ''abc'' \<noteq> []
   \<and> limiter_entries (trace (snd (getFile online (js ''123'') (GetFileParams (Some (js ''abc''))) (js ''123'')
        initial_world))) = 2
   \<and> requestCount (limiter initial_world) = 0
   \<and> length fifteen_calls = 15
   \<and> requestCount (limiter (run_calls online (js ''123'') fifteen_calls initial_world)) = 30
   \<and> sleeps (trace (run_calls online (js ''123'') fifteen_calls initial_world)) = 0
   \<and> sleeps (trace (run_call online (js ''123'') (Call_setMyCommands [])
        (run_calls online (js ''123'') fifteen_calls initial_world))) > 0"
proof -
  have h: "requestCount (limiter initial_world) = 0
      \<and> (\<forall>n. clock online n \<le> resetTime (limiter initial_world))
      \<and> length fifteen_calls = 15 \<and> (\<forall>c \<in> set fifteen_calls. reaches_helper c)"
    by (simp add: js_def initial_world_def online_def fifteen_calls_def)
  have f: "js ''abc'' \<noteq> []"
    by simp
  have s0: "sleeps (trace initial_world) = 0" "limiter_entries (trace initial_world) = 0"
    by (simp_all add: initial_world_def sleeps_def limiter_entries_def)
  from two_units_per_call [where env = online and tok = "js ''123''" and w = initial_world
      and fid = "js ''abc''" and file_token = "js ''123''" and cs = fifteen_calls] h f s0
  have "limiter_entries (trace (snd (getFile online (js ''123'') (GetFileParams (Some (js ''abc''))) (js ''123'')
        initial_world))) = 2"
    and "requestCount (limiter (run_calls online (js ''123'') fifteen_calls initial_world)) = 30"
    and "sleeps (trace (run_calls online (js ''123'') fifteen_calls initial_world)) = 0"
    and "\<forall>c. reaches_helper c \<longrightarrow> sleeps (trace (run_call online (js ''123'') c
        (run_calls online (js ''123'') fifteen_calls initial_world))) > 0"
    by simp_all
  moreover have "reaches_helper (Call_setMyCommands [])"
    by simp
  ultimately show ?thesis
    using h f by blast
qed

text \<open>
  The claim as it is written has every call of \<^verbatim>\<open>getFile\<close> enter the limiter
  twice. A call with an empty file id returns after the first entry.
\<close>

theorem getFile_one_unit_counterexample:
  "getFile online (js ''123'') (GetFileParams (Some [])) (js ''123'') initial_world =
     (Inr \<lparr>status = 400, body = js ''file_id is required''\<rparr>,
      initial_world\<lparr>limiter := \<lparr>requestCount = 1, resetTime = 1000\<rparr>, clock_reads := 1,
        trace := [RateLimit None]\<rparr>)
   \<and> limiter_entries (trace (snd (getFile online (js ''123'') (GetFileParams (Some [])) (js ''123'')
        initial_world))) = 1
   \<and> limiter_entries (trace initial_world) = 0"
  by (simp add: getFile_def await_def rateLimit_io_def rateLimit_cases js_or_def truthy_def
      resolve_def online_def initial_world_def limiter_entries_def)

end
